theory Spec2Isabelle
  imports Main
begin


section \<open>JavaScript values\<close>

text \<open>
  The library relays JSON that the authentication server defines, so the values found in
  an exchange are JSON values, plus \<open>undefined\<close> for a property that is absent.
  Numbers are modelled as integers: the protocol only carries integral numbers (status
  codes, indices, delays) and no operation of the library does arithmetic on them. An
  object lists each of its properties once.
\<close>

datatype json =
    JUndefined
  | JNull
  | JBool bool
  | JNum int
  | JStr string
  | JArr "json list"
  | JObj "(string \<times> json) list"

text \<open>A \<open>TypeError\<close> is the only fault the modelled code can raise.\<close>

datatype error = TypeError

text \<open>JavaScript truthiness (\<open>!!x\<close>, and the operand test of \<open>&&\<close> and \<open>||\<close>).\<close>

fun truthy :: "json \<Rightarrow> bool" where
  "truthy JUndefined = False"
| "truthy JNull = False"
| "truthy (JBool b) = b"
| "truthy (JNum n) = (n \<noteq> 0)"
| "truthy (JStr s) = (s \<noteq> [])"
| "truthy (JArr xs) = True"
| "truthy (JObj kvs) = True"

text \<open>Decimal notation of a number, as template literals print it.\<close>

definition digitChar :: "nat \<Rightarrow> char" where
  "digitChar d = ''0123456789'' ! d"

fun showNat :: "nat \<Rightarrow> string" where
  "showNat n = (if n < 10 then [digitChar n] else showNat (n div 10) @ [digitChar (n mod 10)])"

declare showNat.simps [simp del]

definition showInt :: "int \<Rightarrow> string" where
  "showInt i = (if i < 0 then CHR ''-'' # showNat (nat (- i)) else showNat (nat i))"

fun joinWith :: "string \<Rightarrow> string list \<Rightarrow> string" where
  "joinWith sep [] = []"
| "joinWith sep [x] = x"
| "joinWith sep (x # y # ys) = x @ sep @ joinWith sep (y # ys)"

text \<open>
  The string conversion a template literal \<open>${x}\<close> applies to \<open>x\<close>. An array prints its
  elements separated by commas, with \<open>null\<close> and \<open>undefined\<close> elements printed as
  nothing; a plain object prints as \<open>[object Object]\<close>.
\<close>

fun toString :: "json \<Rightarrow> string" where
  "toString JUndefined = ''undefined''"
| "toString JNull = ''null''"
| "toString (JBool b) = (if b then ''true'' else ''false'')"
| "toString (JNum n) = showInt n"
| "toString (JStr s) = s"
| "toString (JArr xs) =
     joinWith '','' (map (\<lambda>x. if x = JUndefined \<or> x = JNull then [] else toString x) xs)"
| "toString (JObj kvs) = ''[object Object]''"

section \<open>Data model\<close>

text \<open>One \<open>{name, value}\<close> object of a descriptor's \<open>input\<close> or \<open>output\<close> sequence.\<close>

record name_value =
  nv_name :: json
  nv_value :: json

text \<open>
  The \<open>input\<close> property of a descriptor has three shapes in this code base: it is absent
  (output-only descriptors), it is the sequence of \<open>{name, value}\<close> objects the server
  sends, or it is the single object \<open>{index, name, value}\<close> that \<open>renderAllCallbacks\<close>
  gives its synthesized login button. The fields \<open>ctype\<close>, \<open>cinput\<close> and \<open>coutput\<close> of a
  descriptor are its properties \<open>type\<close>, \<open>input\<close> and \<open>output\<close>.
\<close>

datatype cb_input =
    NoInput
  | InputList "name_value list"
  | InputObject json json json

record callback =
  ctype :: string
  cinput :: cb_input
  coutput :: "name_value list"

text \<open>
  The AuthExchange (\<open>this.currentCallbacks\<close>). A property the response does not carry is
  \<open>JUndefined\<close>; an absent \<open>callbacks\<close> property is \<open>None\<close>.
\<close>

record exchange =
  tokenId :: json
  authId :: json
  code :: json
  callbacks :: "callback list option"
  header :: json
  stage :: json
  template :: json

text \<open>
  The \<open>embeddedLogin\<close> instance. For each optional handler the model records whether the
  embedder supplied it.
\<close>

record login =
  currentCallbacks :: exchange
  successHandler :: bool
  failureHandler :: bool
  postRenderHandler :: bool
  loginElement :: bool
  pollingInProgress :: bool


section \<open>Looking up an output entry\<close>

text \<open>
  \<^verbatim>\<open>findName = (array, name) => array.reduce(
      (found, item) => found || (item.name === name && item), false)\<close>

  The result is the first entry of that name, or \<open>false\<close> (here \<open>None\<close>) when there is
  none.
\<close>

definition findName :: "name_value list \<Rightarrow> string \<Rightarrow> name_value option" where
  "findName array n =
     foldl (\<lambda>found item. case found of
                Some f \<Rightarrow> Some f
              | None \<Rightarrow> (if nv_name item = JStr n then Some item else None))
           None array"

text \<open>
  \<open>x.value\<close> for a result \<open>x\<close> of \<open>findName\<close>. Reading a property of the boolean
  \<open>false\<close> is not a fault in JavaScript: it yields \<open>undefined\<close>.
\<close>

fun dotValue :: "name_value option \<Rightarrow> json" where
  "dotValue None = JUndefined"
| "dotValue (Some item) = nv_value item"

text \<open>The \<open>length\<close> property of a value that is neither \<open>null\<close> nor \<open>undefined\<close>.\<close>

fun dotLength :: "json \<Rightarrow> json" where
  "dotLength (JStr s) = JNum (int (length s))"
| "dotLength (JArr xs) = JNum (int (length xs))"
| "dotLength (JObj kvs) = (case map_of kvs ''length'' of Some v \<Rightarrow> v | None \<Rightarrow> JUndefined)"
| "dotLength v = JUndefined"

text \<open>\<open>s.replace(/:$/, "")\<close>: without the multiline flag, \<open>$\<close> is the end of the string.\<close>

definition stripColon :: "string \<Rightarrow> string" where
  "stripColon s = (if s \<noteq> [] \<and> last s = CHR '':'' then butlast s else s)"

text \<open>
  The prompt computed at the head of \<open>renderCallback\<close>. Only a string has a \<open>replace\<close>
  method, so a truthy prompt value with a truthy length that is not a string is a fault.
\<close>

definition promptOf :: "name_value list \<Rightarrow> error + string" where
  "promptOf out =
     (case findName out ''prompt'' of
        None \<Rightarrow> Inr []
      | Some promptOutput \<Rightarrow>
          (if truthy (nv_value promptOutput) \<and> truthy (dotLength (nv_value promptOutput))
           then (case nv_value promptOutput of
                   JStr s \<Rightarrow> Inr (stripColon s)
                 | _ \<Rightarrow> Inl TypeError)
           else Inr []))"

text \<open>\<open>callback.input.value\<close>: an array has no \<open>value\<close> property.\<close>

fun inputDotValue :: "cb_input \<Rightarrow> error + json" where
  "inputDotValue NoInput = Inl TypeError"
| "inputDotValue (InputList xs) = Inr JUndefined"
| "inputDotValue (InputObject i n v) = Inr v"

text \<open>\<open>callback.input[0].value\<close>.\<close>

fun input0DotValue :: "cb_input \<Rightarrow> error + json" where
  "input0DotValue NoInput = Inl TypeError"
| "input0DotValue (InputList []) = Inl TypeError"
| "input0DotValue (InputList (x # xs)) = Inr (nv_value x)"
| "input0DotValue (InputObject i n v) = Inl TypeError"

section \<open>Rendering one descriptor\<close>

text \<open>
  The rendering methods are looked up on \<open>this\<close> at each call, so that an embedder can
  replace any of them. \<open>renderCallback\<close> is therefore modelled in two layers: the
  \<open>switch\<close> decides which method is called with which arguments (a \<open>call\<close>), and
  \<open>invoke\<close> runs the default implementation of that method.
\<close>

record choice =
  active :: bool
  key :: nat
  cvalue :: json

datatype call =
    RenderNameCallback callback nat string
  | RenderPasswordCallback callback nat string
  | RenderTextInputCallback callback nat string
  | RenderTextOutputScript nat json
  | RenderTextOutputMessage nat json json
  | RenderConfirmationCallbackOption json nat nat bool
  | RenderChoiceCallback callback nat string "choice list"
  | RenderHiddenValueCallback callback nat
  | RenderPollingWaitCallback callback nat json
  | RenderReCaptchaCallback callback nat string
  | RenderUnknownCallback callback nat string

text \<open>
  What a branch of the \<open>switch\<close> returns: the result of one method, \<open>Promise.all\<close> of
  the results of several, or nothing (the \<open>RedirectCallback\<close> branch ends in \<open>break\<close>).
\<close>

datatype dispatch = Call call | CallAll "call list" | NoCall

text \<open>
  The effects of \<open>renderCallback\<close> outside the rendered unit: the timer of the
  \<open>PollingWaitCallback\<close> branch with its delay, and the form the \<open>RedirectCallback\<close>
  branch submits (action, method, hidden fields as name and value).
\<close>

datatype effect =
    SetTimeout json
  | SubmitRedirectForm json json "(json \<times> json) list"

text \<open>The body of the timer callback: \<open>this.pollingInProgress = true\<close>, and nothing else.\<close>

definition pollingTimerFired :: "login \<Rightarrow> login" where
  "pollingTimerFired l = l\<lparr>pollingInProgress := True\<rparr>"

text \<open>
  \<open>messageTypeMap[x]\<close> for the object literal
  \<open>{0: "INFORMATION", 1: "WARNING", 2: "ERROR"}\<close>. The key is the string form of \<open>x\<close>.
  Only the three properties of the literal are modelled: a message type that spells the
  name of a member every object inherits (\<open>constructor\<close>, \<open>toString\<close>, ...) would find that
  member, which is not a JSON value.
\<close>

definition messageTypeMap :: "json \<Rightarrow> json" where
  "messageTypeMap x =
     (if toString x = ''0'' then JStr ''INFORMATION''
      else if toString x = ''1'' then JStr ''WARNING''
      else if toString x = ''2'' then JStr ''ERROR''
      else JUndefined)"

text \<open>\<open>defaultOption && defaultOption.value === key\<close>.\<close>

fun isDefault :: "name_value option \<Rightarrow> nat \<Rightarrow> bool" where
  "isDefault None k = False"
| "isDefault (Some defaultOption) k = (nv_value defaultOption = JNum (int k))"

definition confirmationCase :: "callback \<Rightarrow> nat \<Rightarrow> error + dispatch" where
  "confirmationCase cb index =
     (case findName (coutput cb) ''options'' of
        None \<Rightarrow> Inr (CallAll [])
      | Some options \<Rightarrow>
          (case nv_value options of
             JUndefined \<Rightarrow> Inr (CallAll [])
           | JArr xs \<Rightarrow>
               (let defaultOption =
                      (if length xs > 1 then findName (coutput cb) ''defaultOption''
                       else Some \<lparr>nv_name = JUndefined, nv_value = JNum 0\<rparr>)
                in Inr (CallAll (map (\<lambda>(k, option).
                          RenderConfirmationCallbackOption option index k (isDefault defaultOption k))
                        (enumerate 0 xs))))
           | _ \<Rightarrow> Inl TypeError))"

definition choiceCase :: "callback \<Rightarrow> nat \<Rightarrow> string \<Rightarrow> error + dispatch" where
  "choiceCase cb index prompt =
     (case findName (coutput cb) ''choices'' of
        None \<Rightarrow> Inr (CallAll [])
      | Some choiceOutput \<Rightarrow>
          (case nv_value choiceOutput of
             JUndefined \<Rightarrow> Inr (CallAll [])
           | JArr xs \<Rightarrow>
               (if xs = [] then Inr (Call (RenderChoiceCallback cb index prompt []))
                else (case inputDotValue (cinput cb) of
                        Inl e \<Rightarrow> Inl e
                      | Inr v \<Rightarrow>
                          Inr (Call (RenderChoiceCallback cb index prompt
                            (map (\<lambda>(k, option).
                                    \<lparr>active = (v = JNum (int k)), key = k, cvalue = option\<rparr>)
                                 (enumerate 0 xs))))))
           | _ \<Rightarrow> Inl TypeError))"

definition redirectCase :: "callback \<Rightarrow> effect list \<times> (error + dispatch)" where
  "redirectCase cb =
     (let redirectUrl = findName (coutput cb) ''redirectUrl'';
          redirectMethod = findName (coutput cb) ''redirectMethod'';
          redirectData = findName (coutput cb) ''redirectData''
      in if truthy (dotValue redirectData)
         then (case dotValue redirectData of
                 JArr xs \<Rightarrow>
                   ([SubmitRedirectForm (dotValue redirectUrl) (dotValue redirectMethod)
                       (map (\<lambda>(k, v). (JNum (int k), v)) (enumerate 0 xs))],
                    Inr NoCall)
               | _ \<Rightarrow> ([], Inl TypeError))
         else ([SubmitRedirectForm (dotValue redirectUrl) (dotValue redirectMethod) []],
               Inr NoCall))"

text \<open>The \<open>switch\<close> of \<open>renderCallback\<close>, after the prompt has been computed.\<close>

definition switchCallback ::
  "callback \<Rightarrow> nat \<Rightarrow> string \<Rightarrow> effect list \<times> (error + dispatch)" where
  "switchCallback cb index prompt =
     (if ctype cb = ''NameCallback'' then ([], Inr (Call (RenderNameCallback cb index prompt)))
      else if ctype cb = ''PasswordCallback'' then
        ([], Inr (Call (RenderPasswordCallback cb index prompt)))
      else if ctype cb = ''TextInputCallback'' then
        ([], Inr (Call (RenderTextInputCallback cb index prompt)))
      else if ctype cb = ''TextOutputCallback'' then
        (let type = findName (coutput cb) ''messageType'';
             message = findName (coutput cb) ''message''
         in if dotValue type = JStr ''4''
            then ([], Inr (Call (RenderTextOutputScript index (dotValue message))))
            else ([], Inr (Call (RenderTextOutputMessage index (dotValue message)
                                   (messageTypeMap (dotValue type))))))
      else if ctype cb = ''ConfirmationCallback'' then ([], confirmationCase cb index)
      else if ctype cb = ''ChoiceCallback'' then ([], choiceCase cb index prompt)
      else if ctype cb = ''HiddenValueCallback'' then
        ([], Inr (Call (RenderHiddenValueCallback cb index)))
      else if ctype cb = ''RedirectCallback'' then redirectCase cb
      else if ctype cb = ''PollingWaitCallback'' then
        (let pollingWaitTimeoutMs = dotValue (findName (coutput cb) ''waitTime'')
         in ([SetTimeout pollingWaitTimeoutMs],
             Inr (Call (RenderPollingWaitCallback cb index
                          (dotValue (findName (coutput cb) ''message''))))))
      else if ctype cb = ''ReCaptchaCallback'' then
        ([], Inr (Call (RenderReCaptchaCallback cb index prompt)))
      else ([], Inr (Call (RenderUnknownCallback cb index prompt))))"

text \<open>\<open>renderCallback\<close> up to the method calls: the prompt, then the \<open>switch\<close>.\<close>

definition dispatchCallback :: "callback \<Rightarrow> nat \<Rightarrow> effect list \<times> (error + dispatch)" where
  "dispatchCallback cb index =
     (case promptOf (coutput cb) of
        Inl e \<Rightarrow> ([], Inl e)
      | Inr prompt \<Rightarrow> switchCallback cb index prompt)"


section \<open>The default rendering methods\<close>

text \<open>
  Creating and parsing DOM nodes is the browser's work. A rendered node is therefore
  represented by what the code hands to the browser: \<open>FirstElementChild m\<close> is
  \<open>el.firstElementChild\<close> of a fresh \<open>div\<close> after \<open>el.innerHTML = m\<close>;
  \<open>ScriptElement v\<close> is a fresh \<open>script\<close> element after \<open>el.innerHTML = v\<close>;
  \<open>ReCaptchaContainer k n\<close> is the container \<open>renderReCaptchaCallback\<close> builds for the
  site key \<open>k\<close>, with its hidden input named \<open>n\<close>; \<open>BrElement\<close> and \<open>FormElement\<close>
  are the \<open>br\<close> and \<open>form\<close> elements of \<open>joinRenderedCallbacks\<close>.
\<close>

datatype node =
    FirstElementChild string
  | ScriptElement json
  | ReCaptchaContainer json string
  | BrElement
  | FormElement "node list"

definition callbackName :: "nat \<Rightarrow> string" where
  "callbackName index = ''callback_'' @ showNat index"

definition renderNameCallback :: "callback \<Rightarrow> nat \<Rightarrow> string \<Rightarrow> error + node" where
  \<open>renderNameCallback cb index prompt =
     (case input0DotValue (cinput cb) of
        Inl e \<Rightarrow> Inl e
      | Inr v \<Rightarrow> Inr (FirstElementChild
          (''<input type="text" name="'' @ callbackName index @ ''" value="'' @ toString v
             @ ''" placeholder="'' @ prompt @ ''">'')))\<close>

definition renderPasswordCallback :: "callback \<Rightarrow> nat \<Rightarrow> string \<Rightarrow> error + node" where
  \<open>renderPasswordCallback cb index prompt =
     (case input0DotValue (cinput cb) of
        Inl e \<Rightarrow> Inl e
      | Inr v \<Rightarrow> Inr (FirstElementChild
          (''<input type="password" name="'' @ callbackName index @ ''" value="'' @ toString v
             @ ''" placeholder="'' @ prompt @ ''">'')))\<close>

definition renderTextInputCallback :: "callback \<Rightarrow> nat \<Rightarrow> string \<Rightarrow> error + node" where
  \<open>renderTextInputCallback cb index prompt =
     (case input0DotValue (cinput cb) of
        Inl e \<Rightarrow> Inl e
      | Inr v \<Rightarrow> Inr (FirstElementChild
          (''<textarea name="'' @ callbackName index @ ''">'' @ toString v @ ''</textarea>'')))\<close>

definition renderTextOutputScript :: "nat \<Rightarrow> json \<Rightarrow> error + node" where
  "renderTextOutputScript index messageValue = Inr (ScriptElement messageValue)"

definition renderTextOutputMessage :: "nat \<Rightarrow> json \<Rightarrow> json \<Rightarrow> error + node" where
  \<open>renderTextOutputMessage index messageValue typeValue =
     Inr (FirstElementChild
       (''<div id="'' @ callbackName index @ ''" class="'' @ toString typeValue @ ''">''
          @ toString messageValue @ ''</div>''))\<close>

text \<open>The default method does not use its fourth argument, the flag \<open>isDefault\<close>.\<close>

definition renderConfirmationCallbackOption ::
  "json \<Rightarrow> nat \<Rightarrow> nat \<Rightarrow> bool \<Rightarrow> error + node" where
  \<open>renderConfirmationCallbackOption option index k dflt =
     Inr (FirstElementChild
       (''<input name="'' @ callbackName index @ ''" type="submit" index="'' @ showNat k
          @ ''" value="'' @ toString option @ ''">''))\<close>

definition renderOption :: "choice \<Rightarrow> string" where
  \<open>renderOption c =
     ''<option value="'' @ showNat (key c) @ ''" '' @ (if active c then ''selected'' else [])
       @ ''>'' @ toString (cvalue c) @ ''</option>''\<close>

text \<open>The line breaks of the template literal are followed by twelve spaces.\<close>

definition templateBreak :: string where
  "templateBreak = CHR 0x0A # replicate 12 CHR '' ''"

definition renderChoiceCallback ::
  "callback \<Rightarrow> nat \<Rightarrow> string \<Rightarrow> choice list \<Rightarrow> error + node" where
  \<open>renderChoiceCallback cb index prompt choices =
     Inr (FirstElementChild
       (''<div><label for="'' @ callbackName index @ ''" id="label_'' @ callbackName index
          @ ''">'' @ prompt @ ''</label>'' @ templateBreak
          @ ''<select name="'' @ callbackName index @ ''" id="'' @ callbackName index @ ''">''
          @ templateBreak @ joinWith '','' (map renderOption choices) @ templateBreak
          @ ''</select></div>''))\<close>

definition renderHiddenValueCallback :: "callback \<Rightarrow> nat \<Rightarrow> error + node" where
  \<open>renderHiddenValueCallback cb index =
     (case inputDotValue (cinput cb) of
        Inl e \<Rightarrow> Inl e
      | Inr v \<Rightarrow> Inr (FirstElementChild
          (''<input type="hidden" id="'' @ toString v @ ''" aria-hidden="true" name="''
             @ callbackName index @ ''" value="" />'')))\<close>

text \<open>The method of the current module does not use its third argument, the message.\<close>

definition renderPollingWaitCallback :: "callback \<Rightarrow> nat \<Rightarrow> json \<Rightarrow> error + node" where
  \<open>renderPollingWaitCallback cb index message =
     (case inputDotValue (cinput cb) of
        Inl e \<Rightarrow> Inl e
      | Inr v \<Rightarrow> Inr (FirstElementChild
          (''<input type="hidden" id="'' @ toString v @ ''" aria-hidden="true" name="''
             @ callbackName index @ ''" value="" />'')))\<close>

text \<open>\<open>option.output[0].value\<close> is the site key; an empty \<open>output\<close> is a fault.\<close>

definition renderReCaptchaCallback :: "callback \<Rightarrow> nat \<Rightarrow> string \<Rightarrow> error + node" where
  "renderReCaptchaCallback cb index k =
     (case coutput cb of
        [] \<Rightarrow> Inl TypeError
      | x # xs \<Rightarrow> Inr (ReCaptchaContainer (nv_value x) (callbackName index)))"

definition renderUnknownCallback :: "callback \<Rightarrow> nat \<Rightarrow> string \<Rightarrow> error + node" where
  "renderUnknownCallback cb index prompt = renderNameCallback cb index prompt"

fun invoke :: "call \<Rightarrow> error + node" where
  "invoke (RenderNameCallback cb i p) = renderNameCallback cb i p"
| "invoke (RenderPasswordCallback cb i p) = renderPasswordCallback cb i p"
| "invoke (RenderTextInputCallback cb i p) = renderTextInputCallback cb i p"
| "invoke (RenderTextOutputScript i m) = renderTextOutputScript i m"
| "invoke (RenderTextOutputMessage i m t) = renderTextOutputMessage i m t"
| "invoke (RenderConfirmationCallbackOption opt i k d) = renderConfirmationCallbackOption opt i k d"
| "invoke (RenderChoiceCallback cb i p cs) = renderChoiceCallback cb i p cs"
| "invoke (RenderHiddenValueCallback cb i) = renderHiddenValueCallback cb i"
| "invoke (RenderPollingWaitCallback cb i m) = renderPollingWaitCallback cb i m"
| "invoke (RenderReCaptchaCallback cb i p) = renderReCaptchaCallback cb i p"
| "invoke (RenderUnknownCallback cb i p) = renderUnknownCallback cb i p"

text \<open>\<open>xs.map(x => this.render...(x))\<close>: the calls run in order, and a fault ends them.\<close>

fun invokeAll :: "call list \<Rightarrow> error + node list" where
  "invokeAll [] = Inr []"
| "invokeAll (c # cs) =
     (case invoke c of
        Inl e \<Rightarrow> Inl e
      | Inr n \<Rightarrow> (case invokeAll cs of Inl e \<Rightarrow> Inl e | Inr ns \<Rightarrow> Inr (n # ns)))"

text \<open>
  The value the promise returned by \<open>renderCallback\<close> resolves to: one node, an array of
  nodes, or \<open>undefined\<close>.
\<close>

datatype rendered = One node | Many "node list" | NoValue

fun invokeDispatch :: "dispatch \<Rightarrow> error + rendered" where
  "invokeDispatch (Call c) = (case invoke c of Inl e \<Rightarrow> Inl e | Inr n \<Rightarrow> Inr (One n))"
| "invokeDispatch (CallAll cs) = (case invokeAll cs of Inl e \<Rightarrow> Inl e | Inr ns \<Rightarrow> Inr (Many ns))"
| "invokeDispatch NoCall = Inr NoValue"

definition renderCallback :: "callback \<Rightarrow> nat \<Rightarrow> effect list \<times> (error + rendered)" where
  "renderCallback cb index =
     (case dispatchCallback cb index of
        (effs, Inl e) \<Rightarrow> (effs, Inl e)
      | (effs, Inr d) \<Rightarrow> (effs, invokeDispatch d))"


section \<open>Rendering the whole descriptor sequence\<close>

text \<open>
  \<open>array.map((callback, index) => this.renderCallback(callback, index))\<close>, from the
  index \<open>i\<close> on: the descriptors are rendered in order, the effects accumulate, and a
  fault ends the loop.
\<close>

fun mapRender :: "callback list \<Rightarrow> nat \<Rightarrow> effect list \<times> (error + rendered list)" where
  "mapRender [] i = ([], Inr [])"
| "mapRender (cb # cbs) i =
     (case renderCallback cb i of
        (effs, Inl e) \<Rightarrow> (effs, Inl e)
      | (effs, Inr u) \<Rightarrow>
          (case mapRender cbs (Suc i) of
             (effs', Inl e) \<Rightarrow> (effs @ effs', Inl e)
           | (effs', Inr us) \<Rightarrow> (effs @ effs', Inr (u # us))))"

text \<open>
  \<open>joinRenderedCallbacks\<close> flattens the results by \<open>result.concat(item)\<close>, which
  splices an array and appends anything else, \<open>undefined\<close> (here \<open>None\<close>) included; then
  it appends every item to the form, followed by a \<open>br\<close>. Appending \<open>undefined\<close> is a
  fault.
\<close>

fun concatItem :: "rendered \<Rightarrow> node option list" where
  "concatItem (One n) = [Some n]"
| "concatItem (Many ns) = map Some ns"
| "concatItem NoValue = [None]"

definition flatten :: "rendered list \<Rightarrow> node option list" where
  "flatten renderedCallbacks = foldl (\<lambda>result item. result @ concatItem item) [] renderedCallbacks"

fun appendChildren :: "node option list \<Rightarrow> error + node list" where
  "appendChildren [] = Inr []"
| "appendChildren (None # cs) = Inl TypeError"
| "appendChildren (Some c # cs) =
     (case appendChildren cs of
        Inl e \<Rightarrow> Inl e
      | Inr ns \<Rightarrow> Inr (c # BrElement # ns))"

definition joinRenderedCallbacks :: "rendered list \<Rightarrow> error + node" where
  "joinRenderedCallbacks renderedCallbacks =
     (case appendChildren (flatten renderedCallbacks) of
        Inl e \<Rightarrow> Inl e
      | Inr ns \<Rightarrow> Inr (FormElement ns))"

definition getLoginButtonText :: string where
  "getLoginButtonText = ''Login''"

definition needsLoginButton :: "callback list \<Rightarrow> bool" where
  "needsLoginButton cbs =
     (\<not> foldl (\<lambda>result cb. result \<or>
                 ctype cb \<in> set [''ConfirmationCallback'', ''PollingWaitCallback'', ''RedirectCallback''])
              False cbs)"

definition loginCallback :: "callback list \<Rightarrow> callback" where
  "loginCallback cbs =
     \<lparr>ctype = ''ConfirmationCallback'',
      cinput = InputObject (JNum (int (length cbs))) (JStr ''loginButton'') (JNum 0),
      coutput = [\<lparr>nv_name = JStr ''options'', nv_value = JArr [JStr getLoginButtonText]\<rparr>]\<rparr>"

text \<open>
  \<open>renderAllCallbacks\<close> renders \<open>callbacks.concat(loginCallback)\<close> or \<open>callbacks\<close>.
  \<open>concat\<close> builds a new array, so \<open>this.currentCallbacks\<close> is only read: the function
  has no new state to return.
\<close>

definition renderAllCallbacks :: "login \<Rightarrow> effect list \<times> (error + node)" where
  "renderAllCallbacks l =
     (case callbacks (currentCallbacks l) of
        None \<Rightarrow> ([], Inl TypeError)
      | Some cbs \<Rightarrow>
          (case mapRender (if needsLoginButton cbs then cbs @ [loginCallback cbs] else cbs) 0 of
             (effs, Inl e) \<Rightarrow> (effs, Inl e)
           | (effs, Inr renderedCallbacks) \<Rightarrow> (effs, joinRenderedCallbacks renderedCallbacks)))"

section \<open>The session driver\<close>

definition success :: "login \<Rightarrow> bool" where
  "success l = truthy (tokenId (currentCallbacks l))"

definition failure :: "login \<Rightarrow> bool" where
  "failure l = (authId (currentCallbacks l) = JUndefined \<and> code (currentCallbacks l) = JNum 401)"

text \<open>What \<open>handleCallbackResponse\<close> does with the stored response.\<close>

datatype outcome =
    SuccessHandlerInvoked
  | FailureHandlerInvoked
  | Rendering "effect list \<times> (error + node)"

definition handleCallbackResponse :: "login \<Rightarrow> outcome" where
  "handleCallbackResponse l =
     (if success l \<and> successHandler l then SuccessHandlerInvoked
      else if failure l \<and> failureHandler l then FailureHandlerInvoked
      else Rendering (renderAllCallbacks l))"

text \<open>
  The request of \<open>submitCallbacks\<close>. Its body is \<open>JSON.stringify(this.currentCallbacks)\<close>,
  represented by the exchange itself.
\<close>

record request =
  r_method :: string
  r_mode :: string
  r_credentials :: string
  r_headers :: "(string \<times> string) list"
  r_body :: exchange

definition submitCallbacks :: "login \<Rightarrow> request" where
  "submitCallbacks l =
     \<lparr>r_method = ''POST'', r_mode = ''cors'', r_credentials = ''include'',
      r_headers = [(''accept-api-version'', ''protocol=1.0,resource=2.1''),
                   (''content-type'', ''application/json'')],
      r_body = currentCallbacks l\<rparr>"

text \<open>
  The continuation of \<open>submitCallbacks\<close> once the response has arrived: the parsed
  response replaces \<open>this.currentCallbacks\<close>, then \<open>handleCallbackResponse\<close> runs.
\<close>

definition receiveResponse :: "login \<Rightarrow> exchange \<Rightarrow> login \<times> outcome" where
  "receiveResponse l jsonResp =
     (let l' = l\<lparr>currentCallbacks := jsonResp\<rparr> in (l', handleCallbackResponse l'))"

section \<open>The form binder\<close>

text \<open>\<open>entry[0].match(/^callback_(\d+)$/)\<close> and \<open>parseInt(callback_entry[1], 10)\<close>.\<close>

definition isDigit :: "char \<Rightarrow> bool" where
  "isDigit c = (c \<in> set ''0123456789'')"

definition digitValue :: "char \<Rightarrow> nat" where
  "digitValue c = of_char c - 48"

definition parseInt :: "string \<Rightarrow> nat" where
  "parseInt ds = foldl (\<lambda>acc c. 10 * acc + digitValue c) 0 ds"

definition matchCallback :: "string \<Rightarrow> nat option" where
  "matchCallback n =
     (if take 9 n = ''callback_'' \<and> drop 9 n \<noteq> [] \<and> list_all isDigit (drop 9 n)
      then Some (parseInt (drop 9 n)) else None)"

text \<open>
  \<open>input[0].value = v\<close>. Without an \<open>input\<close>, with an empty one, or with the single
  object of the login button, \<open>input[0]\<close> is \<open>undefined\<close> and the assignment is a fault.
\<close>

fun setInput0Value :: "cb_input \<Rightarrow> string \<Rightarrow> error + cb_input" where
  "setInput0Value NoInput v = Inl TypeError"
| "setInput0Value (InputList []) v = Inl TypeError"
| "setInput0Value (InputList (x # xs)) v = Inr (InputList (x\<lparr>nv_value := JStr v\<rparr> # xs))"
| "setInput0Value (InputObject i n w) v = Inl TypeError"

text \<open>
  The body of the loop of \<open>handleLoginSubmit\<close>, for one form field, given by its name and
  its value, a string. \<open>callbacks[i]\<close> is \<open>undefined\<close> for an index \<open>i\<close> that is not below
  the length of the array, and reading its \<open>input\<close> is then a fault.
\<close>

definition applyEntry :: "exchange \<Rightarrow> string \<times> string \<Rightarrow> error + exchange" where
  "applyEntry ex entry =
     (case matchCallback (fst entry) of
        None \<Rightarrow> Inr ex
      | Some i \<Rightarrow>
          (case callbacks ex of
             None \<Rightarrow> Inl TypeError
           | Some cbs \<Rightarrow>
               (if i < length cbs
                then (case setInput0Value (cinput (cbs ! i)) (snd entry) of
                        Inl e \<Rightarrow> Inl e
                      | Inr inp \<Rightarrow>
                          Inr (ex\<lparr>callbacks := Some (cbs[i := (cbs ! i)\<lparr>cinput := inp\<rparr>])\<rparr>))
                else Inl TypeError)))"

text \<open>
  The loop over the fields of the form. A fault leaves the loop with the exchange as the
  fields before it have changed it.
\<close>

fun applyEntries :: "exchange \<Rightarrow> (string \<times> string) list \<Rightarrow> exchange \<times> error option" where
  "applyEntries ex [] = (ex, None)"
| "applyEntries ex (entry # entries) =
     (case applyEntry ex entry of
        Inl e \<Rightarrow> (ex, Some e)
      | Inr ex' \<Rightarrow> applyEntries ex' entries)"

text \<open>
  \<open>handleLoginSubmit\<close>: the new state, and the request \<open>submitCallbacks\<close> sends unless
  the loop has raised a fault.
\<close>

definition handleLoginSubmit :: "login \<Rightarrow> (string \<times> string) list \<Rightarrow> login \<times> (error + request)" where
  "handleLoginSubmit l entries =
     (case applyEntries (currentCallbacks l) entries of
        (ex, Some e) \<Rightarrow> (l\<lparr>currentCallbacks := ex\<rparr>, Inl e)
      | (ex, None) \<Rightarrow>
          (l\<lparr>currentCallbacks := ex\<rparr>, Inr (submitCallbacks (l\<lparr>currentCallbacks := ex\<rparr>))))"

text \<open>
  \<open>startLogin\<close> resets the exchange to the empty object and submits it.
\<close>

definition emptyExchange :: exchange where
  "emptyExchange =
     \<lparr>tokenId = JUndefined, authId = JUndefined, code = JUndefined, callbacks = None,
      header = JUndefined, stage = JUndefined, template = JUndefined\<rparr>"

definition startLogin :: "login \<Rightarrow> login \<times> request" where
  "startLogin l =
     (let l' = l\<lparr>currentCallbacks := emptyExchange\<rparr> in (l', submitCallbacks l'))"

section \<open>The earlier variant of the module\<close>

text \<open>
  \<open>index.js\<close> and the bundle hold an earlier version of the module, whose rendering
  methods return markup strings. Two of its methods differ from the current ones in what
  they render. Its \<open>renderPollingWaitCallback\<close> is
  \<^verbatim>\<open>Promise.resolve(`<h4>${message}</h4>`)\<close>.
\<close>

definition renderPollingWaitCallback_index_js :: "callback \<Rightarrow> nat \<Rightarrow> json \<Rightarrow> string" where
  "renderPollingWaitCallback_index_js cb index message = ''<h4>'' @ toString message @ ''</h4>''"

text \<open>
  Its TextOutputCallback branch has no \<open>messageTypeMap\<close>: it passes \<open>type.value\<close> itself to
  \<open>renderTextOutputMessage\<close>.
\<close>

definition renderTextOutputScript_index_js :: "nat \<Rightarrow> json \<Rightarrow> string" where
  \<open>renderTextOutputScript_index_js index messageValue =
     ''<script type="text/javascript">'' @ toString messageValue @ ''</script>''\<close>

definition renderTextOutputMessage_index_js :: "nat \<Rightarrow> json \<Rightarrow> json \<Rightarrow> string" where
  \<open>renderTextOutputMessage_index_js index messageValue typeValue =
     ''<div id="'' @ callbackName index @ ''" class="'' @ toString typeValue @ ''">''
       @ toString messageValue @ ''</div>''\<close>

definition textOutputCase_index_js :: "callback \<Rightarrow> nat \<Rightarrow> string" where
  "textOutputCase_index_js cb index =
     (let type = findName (coutput cb) ''messageType'';
          message = findName (coutput cb) ''message''
      in if dotValue type = JStr ''4''
         then renderTextOutputScript_index_js index (dotValue message)
         else renderTextOutputMessage_index_js index (dotValue message) (dotValue type))"

section \<open>Observations used in the statements\<close>

text \<open>
  A descriptor with the value of its first input erased. Two descriptors that agree after
  the erasure have the same type, the same outputs and the same inputs up to
  \<open>input[0].value\<close>.
\<close>

definition withoutInput0Value :: "callback \<Rightarrow> callback" where
  "withoutInput0Value cb =
     cb\<lparr>cinput := (case cinput cb of
                      InputList (x # xs) \<Rightarrow> InputList (x\<lparr>nv_value := JUndefined\<rparr> # xs)
                    | inp \<Rightarrow> inp)\<rparr>"

definition withoutInputValues :: "exchange \<Rightarrow> exchange" where
  "withoutInputValues ex = ex\<lparr>callbacks := map_option (map withoutInput0Value) (callbacks ex)\<rparr>"

text \<open>The expression \<open>this.currentCallbacks.callbacks[i].input[0].value\<close>, read.\<close>

definition descriptorInputValue :: "exchange \<Rightarrow> nat \<Rightarrow> error + json" where
  "descriptorInputValue ex i =
     (case callbacks ex of
        None \<Rightarrow> Inl TypeError
      | Some cbs \<Rightarrow> (if i < length cbs then input0DotValue (cinput (cbs ! i)) else Inl TypeError))"

text \<open>The exchange has a descriptor \<open>i\<close>, and that descriptor has an \<open>input[0]\<close>.\<close>

definition writable :: "exchange \<Rightarrow> nat \<Rightarrow> bool" where
  "writable ex i =
     (case callbacks ex of
        None \<Rightarrow> False
      | Some cbs \<Rightarrow> i < length cbs \<and> (case cinput (cbs ! i) of InputList (x # xs) \<Rightarrow> True | _ \<Rightarrow> False))"



section \<open>Sample descriptors and exchanges\<close>

definition sampleNameCallback :: "string \<Rightarrow> callback" where
  "sampleNameCallback v =
     \<lparr>ctype = ''NameCallback'',
      cinput = InputList [\<lparr>nv_name = JStr ''IDToken1'', nv_value = JStr v\<rparr>],
      coutput = [\<lparr>nv_name = JStr ''prompt'', nv_value = JStr ''User Name:''\<rparr>]\<rparr>"

definition samplePasswordCallback :: "string \<Rightarrow> callback" where
  "samplePasswordCallback v =
     \<lparr>ctype = ''PasswordCallback'',
      cinput = InputList [\<lparr>nv_name = JStr ''IDToken2'', nv_value = JStr v\<rparr>],
      coutput = [\<lparr>nv_name = JStr ''prompt'', nv_value = JStr ''Password:''\<rparr>]\<rparr>"

definition sampleExchange :: "callback list \<Rightarrow> exchange" where
  "sampleExchange cbs =
     \<lparr>tokenId = JUndefined, authId = JStr ''eyJ0eXAi'', code = JUndefined, callbacks = Some cbs,
      header = JStr ''Sign in'', stage = JStr ''DataStore1'', template = JStr []\<rparr>"

definition sampleLogin :: "exchange \<Rightarrow> login" where
  "sampleLogin ex =
     \<lparr>currentCallbacks = ex, successHandler = True, failureHandler = True,
      postRenderHandler = False, loginElement = True, pollingInProgress = False\<rparr>"

definition sampleConfirmationCallback :: callback where
  "sampleConfirmationCallback =
     \<lparr>ctype = ''ConfirmationCallback'',
      cinput = InputList [\<lparr>nv_name = JStr ''IDToken3'', nv_value = JNum 0\<rparr>],
      coutput = [\<lparr>nv_name = JStr ''prompt'', nv_value = JStr []\<rparr>,
                 \<lparr>nv_name = JStr ''messageType'', nv_value = JNum 0\<rparr>,
                 \<lparr>nv_name = JStr ''options'', nv_value = JArr [JStr ''Yes'', JStr ''No'']\<rparr>,
                 \<lparr>nv_name = JStr ''optionType'', nv_value = JNum (- 1)\<rparr>,
                 \<lparr>nv_name = JStr ''defaultOption'', nv_value = JNum 1\<rparr>]\<rparr>"

definition sampleChoiceCallback :: "json \<Rightarrow> callback" where
  "sampleChoiceCallback v =
     \<lparr>ctype = ''ChoiceCallback'',
      cinput = InputList [\<lparr>nv_name = JStr ''IDToken1'', nv_value = v\<rparr>],
      coutput = [\<lparr>nv_name = JStr ''prompt'', nv_value = JStr ''Colour:''\<rparr>,
                 \<lparr>nv_name = JStr ''choices'', nv_value = JArr [JStr ''red'', JStr ''green'']\<rparr>,
                 \<lparr>nv_name = JStr ''defaultChoice'', nv_value = JNum 1\<rparr>]\<rparr>"


definition samplePollingWaitCallback :: "cb_input \<Rightarrow> callback" where
  "samplePollingWaitCallback inp =
     \<lparr>ctype = ''PollingWaitCallback'',
      cinput = inp,
      coutput = [\<lparr>nv_name = JStr ''waitTime'', nv_value = JStr ''8000''\<rparr>,
                 \<lparr>nv_name = JStr ''message'', nv_value = JStr ''Waiting for response...''\<rparr>]\<rparr>"

definition sampleTextOutputCallback :: "json \<Rightarrow> string \<Rightarrow> callback" where
  "sampleTextOutputCallback t m =
     \<lparr>ctype = ''TextOutputCallback'',
      cinput = NoInput,
      coutput = [\<lparr>nv_name = JStr ''message'', nv_value = JStr m\<rparr>,
                 \<lparr>nv_name = JStr ''messageType'', nv_value = t\<rparr>]\<rparr>"

section \<open>Properties of the form binder\<close>

lemma setInput0Value_erased:
  "setInput0Value (cinput cb) v = Inr inp \<Longrightarrow> withoutInput0Value (cb\<lparr>cinput := inp\<rparr>) = withoutInput0Value cb"
  by (cases "(cinput cb, v)" rule: setInput0Value.cases) (auto simp: withoutInput0Value_def)

lemma applyEntry_erased:
  assumes "applyEntry ex entry = Inr ex'"
  shows "withoutInputValues ex' = withoutInputValues ex"
proof (cases "matchCallback (fst entry)")
  case None
  with assms show ?thesis by (simp add: applyEntry_def)
next
  case (Some i)
  show ?thesis
  proof (cases "callbacks ex")
    case None
    with Some assms show ?thesis by (simp add: applyEntry_def)
  next
    case cbs: (Some cbs)
    from assms Some cbs have in_range: "i < length cbs"
      by (simp add: applyEntry_def split: if_splits)
    from assms Some cbs in_range obtain inp where
      inp: "setInput0Value (cinput (cbs ! i)) (snd entry) = Inr inp"
      and ex': "ex' = ex\<lparr>callbacks := Some (cbs[i := (cbs ! i)\<lparr>cinput := inp\<rparr>])\<rparr>"
      by (auto simp: applyEntry_def split: sum.splits)
    have "map withoutInput0Value (cbs[i := (cbs ! i)\<lparr>cinput := inp\<rparr>]) = map withoutInput0Value cbs"
      using setInput0Value_erased[OF inp] in_range
      by (simp add: map_update list_update_same_conv)
    with ex' cbs show ?thesis by (simp add: withoutInputValues_def)
  qed
qed

lemma applyEntries_erased:
  "withoutInputValues (fst (applyEntries ex entries)) = withoutInputValues ex"
proof (induction entries arbitrary: ex)
  case Nil
  show ?case by simp
next
  case (Cons entry entries)
  show ?case
  proof (cases "applyEntry ex entry")
    case (Inl e)
    then show ?thesis by simp
  next
    case (Inr ex')
    with Cons.IH[of ex'] applyEntry_erased[OF Inr] show ?thesis by simp
  qed
qed

lemma applyEntry_nomatch: "matchCallback (fst entry) = None \<Longrightarrow> applyEntry ex entry = Inr ex"
  by (simp add: applyEntry_def)

lemma setInput0Value_Inr_iff:
  "(\<exists>inp'. setInput0Value inp v = Inr inp') \<longleftrightarrow> (case inp of InputList (x # xs) \<Rightarrow> True | _ \<Rightarrow> False)"
  by (cases "(inp, v)" rule: setInput0Value.cases) auto

lemma setInput0Value_read: "setInput0Value inp v = Inr inp' \<Longrightarrow> input0DotValue inp' = Inr (JStr v)"
  by (cases "(inp, v)" rule: setInput0Value.cases) auto

lemma applyEntry_writable:
  assumes "matchCallback (fst entry) = Some i" and "writable ex i"
  shows "\<exists>ex'. applyEntry ex entry = Inr ex'"
proof -
  from assms(2) obtain cbs where cbs: "callbacks ex = Some cbs" and i: "i < length cbs"
    and inp: "case cinput (cbs ! i) of InputList (x # xs) \<Rightarrow> True | _ \<Rightarrow> False"
    by (auto simp: writable_def split: option.splits)
  from inp obtain inp' where "setInput0Value (cinput (cbs ! i)) (snd entry) = Inr inp'"
    using setInput0Value_Inr_iff[of "cinput (cbs ! i)" "snd entry"] by blast
  with assms(1) cbs i show ?thesis by (simp add: applyEntry_def)
qed

lemma applyEntry_written:
  assumes "applyEntry ex entry = Inr ex'" and "matchCallback (fst entry) = Some i"
  shows "descriptorInputValue ex' i = Inr (JStr (snd entry))"
proof -
  from assms obtain cbs where cbs: "callbacks ex = Some cbs"
    by (cases "callbacks ex") (auto simp: applyEntry_def)
  from assms cbs have i: "i < length cbs"
    by (simp add: applyEntry_def split: if_splits)
  from assms cbs i obtain inp where
    inp: "setInput0Value (cinput (cbs ! i)) (snd entry) = Inr inp"
    and ex': "ex' = ex\<lparr>callbacks := Some (cbs[i := (cbs ! i)\<lparr>cinput := inp\<rparr>])\<rparr>"
    by (auto simp: applyEntry_def split: sum.splits)
  from ex' i setInput0Value_read[OF inp] show ?thesis
    by (simp add: descriptorInputValue_def)
qed

lemma applyEntry_other:
  assumes "applyEntry ex entry = Inr ex'" and "matchCallback (fst entry) \<noteq> Some i"
  shows "descriptorInputValue ex' i = descriptorInputValue ex i"
proof (cases "matchCallback (fst entry)")
  case None
  with assms show ?thesis by (simp add: applyEntry_def)
next
  case (Some j)
  with assms(2) have ji: "j \<noteq> i" by simp
  from assms Some obtain cbs where cbs: "callbacks ex = Some cbs"
    by (cases "callbacks ex") (auto simp: applyEntry_def)
  from assms Some cbs have j: "j < length cbs"
    by (simp add: applyEntry_def split: if_splits)
  from assms Some cbs j obtain inp where
    ex': "ex' = ex\<lparr>callbacks := Some (cbs[j := (cbs ! j)\<lparr>cinput := inp\<rparr>])\<rparr>"
    by (auto simp: applyEntry_def split: sum.splits)
  from ex' cbs ji show ?thesis
    by (simp add: descriptorInputValue_def)
qed

lemma writable_erased: "writable (withoutInputValues ex) i = writable ex i"
proof (cases "callbacks ex")
  case None
  then show ?thesis by (simp add: writable_def withoutInputValues_def)
next
  case (Some cbs)
  have "i < length cbs \<Longrightarrow>
        (case cinput (withoutInput0Value (cbs ! i)) of InputList (x # xs) \<Rightarrow> True | _ \<Rightarrow> False)
        = (case cinput (cbs ! i) of InputList (x # xs) \<Rightarrow> True | _ \<Rightarrow> False)"
    by (simp add: withoutInput0Value_def split: cb_input.splits list.splits)
  with Some show ?thesis by (auto simp: writable_def withoutInputValues_def)
qed

lemma applyEntry_keeps_writable:
  "applyEntry ex entry = Inr ex' \<Longrightarrow> writable ex' i = writable ex i"
  using applyEntry_erased[of ex entry ex'] writable_erased[of ex i] writable_erased[of ex' i]
  by simp

lemma applyEntries_append:
  "applyEntries ex (es @ fs) =
     (case applyEntries ex es of
        (ex', Some e) \<Rightarrow> (ex', Some e)
      | (ex', None) \<Rightarrow> applyEntries ex' fs)"
  by (induction es arbitrary: ex) (auto split: sum.splits)

lemma applyEntries_total:
  "\<forall>e\<in>set entries. \<forall>i. matchCallback (fst e) = Some i \<longrightarrow> writable ex i
   \<Longrightarrow> snd (applyEntries ex entries) = None"
proof (induction entries arbitrary: ex)
  case Nil
  show ?case by simp
next
  case (Cons entry entries)
  have "\<exists>ex'. applyEntry ex entry = Inr ex'"
  proof (cases "matchCallback (fst entry)")
    case None
    then show ?thesis by (simp add: applyEntry_nomatch)
  next
    case (Some i)
    with Cons.prems have "writable ex i" by simp
    with Some show ?thesis by (rule applyEntry_writable)
  qed
  then obtain ex' where ex': "applyEntry ex entry = Inr ex'" ..
  have "\<forall>e\<in>set entries. \<forall>i. matchCallback (fst e) = Some i \<longrightarrow> writable ex' i"
    using Cons.prems applyEntry_keeps_writable[OF ex'] by simp
  from Cons.IH[OF this] ex' show ?case by simp
qed

lemma applyEntries_last_write:
  assumes "applyEntries ex entries = (ex', None)"
    and "j < length entries"
    and "matchCallback (fst (entries ! j)) = Some i"
    and "\<forall>k. j < k \<and> k < length entries \<longrightarrow> matchCallback (fst (entries ! k)) \<noteq> Some i"
  shows "descriptorInputValue ex' i = Inr (JStr (snd (entries ! j)))"
  using assms
proof (induction entries arbitrary: ex' j rule: rev_induct)
  case Nil
  then show ?case by simp
next
  case (snoc entry entries)
  from snoc.prems(1) obtain ex1 where
    ex1: "applyEntries ex entries = (ex1, None)" and last: "applyEntry ex1 entry = Inr ex'"
    by (auto simp: applyEntries_append split: prod.splits option.splits sum.splits)
  show ?case
  proof (cases "j = length entries")
    case True
    with snoc.prems(3) have "matchCallback (fst entry) = Some i" by simp
    from applyEntry_written[OF last this] True show ?thesis by simp
  next
    case False
    with snoc.prems(2) have j: "j < length entries" by simp
    from snoc.prems(4) j have "matchCallback (fst entry) \<noteq> Some i"
      by (auto dest: spec[of _ "length entries"])
    from applyEntry_other[OF last this] have "descriptorInputValue ex' i = descriptorInputValue ex1 i" .
    moreover have "descriptorInputValue ex1 i = Inr (JStr (snd (entries ! j)))"
    proof (rule snoc.IH[OF ex1 j])
      from snoc.prems(3) j show "matchCallback (fst (entries ! j)) = Some i"
        by (simp add: nth_append)
      show "\<forall>k. j < k \<and> k < length entries \<longrightarrow> matchCallback (fst (entries ! k)) \<noteq> Some i"
      proof (intro allI impI)
        fix k assume k: "j < k \<and> k < length entries"
        with snoc.prems(4) have "matchCallback (fst ((entries @ [entry]) ! k)) \<noteq> Some i" by simp
        with k show "matchCallback (fst (entries ! k)) \<noteq> Some i" by (simp add: nth_append)
      qed
    qed
    ultimately show ?thesis using j by (simp add: nth_append)
  qed
qed

lemma applyEntries_filter:
  "applyEntries ex (filter (\<lambda>e. matchCallback (fst e) \<noteq> None) entries) = applyEntries ex entries"
proof (induction entries arbitrary: ex)
  case Nil
  show ?case by simp
next
  case (Cons entry entries)
  then show ?case by (cases "matchCallback (fst entry)") (auto simp: applyEntry_nomatch split: sum.splits)
qed

lemma applyEntries_nomatch:
  "\<forall>e\<in>set entries. matchCallback (fst e) = None \<Longrightarrow> applyEntries ex entries = (ex, None)"
  by (induction entries) (auto simp: applyEntry_nomatch)

lemma digitChar_cases:
  "d < 10 \<Longrightarrow> d = 0 \<or> d = 1 \<or> d = 2 \<or> d = 3 \<or> d = 4 \<or> d = 5 \<or> d = 6 \<or> d = 7 \<or> d = 8 \<or> d = (9::nat)"
  by arith

lemma digitChar_isDigit: "d < 10 \<Longrightarrow> isDigit (digitChar d)"
  using digitChar_cases[of d] by (auto simp: digitChar_def isDigit_def)

lemma digitChar_value: "d < 10 \<Longrightarrow> digitValue (digitChar d) = d"
  using digitChar_cases[of d] by (auto simp: digitChar_def digitValue_def)

lemma parseInt_snoc: "parseInt (ds @ [c]) = 10 * parseInt ds + digitValue c"
  by (simp add: parseInt_def)

lemma showNat_nonempty: "showNat n \<noteq> []"
  by (subst showNat.simps) simp

lemma showNat_digits: "list_all isDigit (showNat n)"
proof (induction n rule: showNat.induct)
  case (1 n)
  show ?case
  proof (cases "n < 10")
    case True
    then show ?thesis by (subst showNat.simps) (simp add: digitChar_isDigit)
  next
    case False
    with 1 show ?thesis by (subst showNat.simps) (simp add: digitChar_isDigit)
  qed
qed

lemma parseInt_showNat: "parseInt (showNat n) = n"
proof (induction n rule: showNat.induct)
  case (1 n)
  show ?case
  proof (cases "n < 10")
    case True
    then show ?thesis by (subst showNat.simps) (simp add: parseInt_def digitChar_value)
  next
    case False
    with 1 have "parseInt (showNat (n div 10)) = n div 10" by simp
    with False show ?thesis by (subst showNat.simps) (simp add: parseInt_snoc digitChar_value)
  qed
qed

lemma matchCallback_callbackName: "matchCallback (callbackName i) = Some i"
  by (simp add: matchCallback_def callbackName_def showNat_nonempty showNat_digits parseInt_showNat)

lemma matchCallback_Some_iff:
  "matchCallback n = Some i \<longleftrightarrow>
     (\<exists>ds. n = ''callback_'' @ ds \<and> ds \<noteq> [] \<and> list_all isDigit ds \<and> parseInt ds = i)"
proof
  assume "matchCallback n = Some i"
  then have "take 9 n = ''callback_''" "drop 9 n \<noteq> []" "list_all isDigit (drop 9 n)" "parseInt (drop 9 n) = i"
    by (auto simp: matchCallback_def split: if_splits)
  moreover have "n = take 9 n @ drop 9 n" by simp
  ultimately show "\<exists>ds. n = ''callback_'' @ ds \<and> ds \<noteq> [] \<and> list_all isDigit ds \<and> parseInt ds = i"
    by metis
next
  assume "\<exists>ds. n = ''callback_'' @ ds \<and> ds \<noteq> [] \<and> list_all isDigit ds \<and> parseInt ds = i"
  then show "matchCallback n = Some i" by (auto simp: matchCallback_def)
qed

lemma foldl_or: "foldl (\<lambda>result x. result \<or> P x) b xs \<longleftrightarrow> b \<or> (\<exists>x\<in>set xs. P x)"
  by (induction xs arbitrary: b) auto

lemma needsLoginButton_iff:
  "needsLoginButton cbs \<longleftrightarrow>
     (\<forall>cb\<in>set cbs. ctype cb \<noteq> ''ConfirmationCallback'' \<and> ctype cb \<noteq> ''PollingWaitCallback''
                    \<and> ctype cb \<noteq> ''RedirectCallback'')"
  unfolding needsLoginButton_def foldl_or by auto

lemma withoutInput0Value_ctype: "ctype (withoutInput0Value cb) = ctype cb"
  by (simp add: withoutInput0Value_def)

lemma withoutInput0Value_coutput: "coutput (withoutInput0Value cb) = coutput cb"
  by (simp add: withoutInput0Value_def)

lemma erased_same_types:
  assumes "map withoutInput0Value cbs' = map withoutInput0Value cbs"
  shows "map ctype cbs' = map ctype cbs"
proof -
  have "map ctype (map withoutInput0Value cbs') = map ctype (map withoutInput0Value cbs)"
    using assms by simp
  then show ?thesis by (simp add: comp_def withoutInput0Value_ctype)
qed

lemma erased_same_outputs:
  assumes "map withoutInput0Value cbs' = map withoutInput0Value cbs"
  shows "map coutput cbs' = map coutput cbs"
proof -
  have "map coutput (map withoutInput0Value cbs') = map coutput (map withoutInput0Value cbs)"
    using assms by simp
  then show ?thesis by (simp add: comp_def withoutInput0Value_coutput)
qed

lemma handleLoginSubmit_erased:
  "withoutInputValues (currentCallbacks (fst (handleLoginSubmit l entries)))
     = withoutInputValues (currentCallbacks l)"
proof (cases "applyEntries (currentCallbacks l) entries")
  case (Pair ex err)
  with applyEntries_erased[of "currentCallbacks l" entries] show ?thesis
    by (cases err) (simp_all add: handleLoginSubmit_def)
qed

lemma handleLoginSubmit_body:
  "handleLoginSubmit l entries = (l', Inr req) \<Longrightarrow> r_body req = currentCallbacks l'"
  by (auto simp: handleLoginSubmit_def submitCallbacks_def split: prod.splits option.splits)

lemma receiveResponse_stored: "currentCallbacks (fst (receiveResponse l jsonResp)) = jsonResp"
  by (simp add: receiveResponse_def Let_def)

lemma handleLoginSubmit_completes:
  assumes "applyEntries (currentCallbacks l) entries = (ex, None)"
  shows "handleLoginSubmit l entries
           = (l\<lparr>currentCallbacks := ex\<rparr>, Inr (submitCallbacks (l\<lparr>currentCallbacks := ex\<rparr>)))"
  using assms by (simp add: handleLoginSubmit_def)

lemma applyEntries_prefix:
  assumes "applyEntries ex entries = (ex', None)"
  shows "snd (applyEntries ex (take n entries)) = None"
proof (rule ccontr)
  assume "snd (applyEntries ex (take n entries)) \<noteq> None"
  then obtain ex1 e where "applyEntries ex (take n entries) = (ex1, Some e)"
    by (cases "applyEntries ex (take n entries)") auto
  then have "applyEntries ex (take n entries @ drop n entries) = (ex1, Some e)"
    unfolding applyEntries_append by simp
  with assms show False unfolding append_take_drop_id by simp
qed

lemma applyEntry_login_button_field:
  assumes "callbacks ex = Some cbs"
  shows "applyEntry ex (callbackName (length cbs), v) = Inl TypeError"
  using assms by (simp add: applyEntry_def matchCallback_callbackName)

section \<open>Properties of the renderer\<close>

lemma findName_Nil: "findName [] n = None"
  by (simp add: findName_def)

lemma foldl_found: "foldl (\<lambda>found item. case found of Some f \<Rightarrow> Some f
              | None \<Rightarrow> (if nv_name item = JStr n then Some item else None)) (Some f) xs = Some f"
  by (induction xs) auto

lemma findName_Cons:
  "findName (x # xs) n = (if nv_name x = JStr n then Some x else findName xs n)"
  by (simp add: findName_def foldl_found)

lemma showNat_digit: "n < 10 \<Longrightarrow> showNat n = [digitChar n]"
  by (subst showNat.simps) simp















lemma mapRender_length: "mapRender cbs i = (effs, Inr us) \<Longrightarrow> length us = length cbs"
proof (induction cbs arbitrary: i effs us)
  case Nil
  then show ?case by simp
next
  case (Cons cb cbs)
  then show ?case by (auto split: prod.splits sum.splits)
qed

lemma dispatch_TextOutput:
  assumes "ctype cb = ''TextOutputCallback''" and "promptOf (coutput cb) = Inr p"
  shows "dispatchCallback cb i =
     ([], Inr (Call (if dotValue (findName (coutput cb) ''messageType'') = JStr ''4''
                     then RenderTextOutputScript i (dotValue (findName (coutput cb) ''message''))
                     else RenderTextOutputMessage i (dotValue (findName (coutput cb) ''message''))
                            (messageTypeMap (dotValue (findName (coutput cb) ''messageType''))))))"
  using assms by (simp add: dispatchCallback_def switchCallback_def Let_def)

lemma map_enumerate:
  "map (\<lambda>(k, x). f k x) (enumerate 0 xs) = map (\<lambda>k. f k (xs ! k)) [0..<length xs]"
  by (rule nth_equalityI) (simp_all add: nth_enumerate_eq)

lemma isDefault_iff: "isDefault found k \<longleftrightarrow> dotValue found = JNum (int k)"
  by (cases found) simp_all

lemma dotValue_found:
  "dotValue found = v \<Longrightarrow> v \<noteq> JUndefined \<Longrightarrow> \<exists>item. found = Some item \<and> nv_value item = v"
  by (cases found) auto

lemma invokeAll_map:
  "(\<And>x. x \<in> set xs \<Longrightarrow> invoke (c x) = Inr (g x)) \<Longrightarrow> invokeAll (map c xs) = Inr (map g xs)"
  by (induction xs) auto

lemma dispatch_Confirmation:
  assumes "ctype cb = ''ConfirmationCallback''" and "promptOf (coutput cb) = Inr p"
    and "dotValue (findName (coutput cb) ''options'') = JArr xs"
  shows "dispatchCallback cb i =
     ([], Inr (CallAll (map (\<lambda>k. RenderConfirmationCallbackOption (xs ! k) i k
                 (if length xs = 1 then True
                  else dotValue (findName (coutput cb) ''defaultOption'') = JNum (int k)))
               [0..<length xs])))"
proof -
  from dotValue_found[OF assms(3)] obtain opts where
    opts: "findName (coutput cb) ''options'' = Some opts" and v: "nv_value opts = JArr xs"
    by auto
  have switch: "dispatchCallback cb i = ([], confirmationCase cb i)"
    using assms(1,2) by (simp add: dispatchCallback_def switchCallback_def)
  show ?thesis
  proof (cases "length xs > 1")
    case True
    then show ?thesis
      using opts v switch
      by (simp add: confirmationCase_def map_enumerate isDefault_iff)
  next
    case False
    then have "xs = [] \<or> length xs = 1" by (cases xs) auto
    then show ?thesis
      using opts v switch False
      by (auto simp: confirmationCase_def map_enumerate)
  qed
qed

lemma choice_inactive_for_input_sequence:
  assumes "ctype cb = ''ChoiceCallback''" and "promptOf (coutput cb) = Inr p"
    and "dotValue (findName (coutput cb) ''choices'') = JArr xs"
    and "cinput cb = InputList inputs"
  shows "dispatchCallback cb i =
     ([], Inr (Call (RenderChoiceCallback cb i p
        (map (\<lambda>k. \<lparr>active = False, key = k, cvalue = xs ! k\<rparr>) [0..<length xs]))))"
proof -
  from dotValue_found[OF assms(3)] obtain c where
    c: "findName (coutput cb) ''choices'' = Some c" and v: "nv_value c = JArr xs"
    by auto
  have "dispatchCallback cb i = ([], choiceCase cb i p)"
    using assms(1,2) by (simp add: dispatchCallback_def switchCallback_def)
  then show ?thesis
    using c v assms(4) by (simp add: choiceCase_def map_enumerate)
qed


lemma index_js_text_output_class:
  \<open>textOutputCase_index_js (sampleTextOutputCallback (JStr ''1'') ''Careful'') 0
     = ''<div id="callback_0" class="1">Careful</div>''\<close>
  by (simp add: textOutputCase_index_js_def renderTextOutputMessage_index_js_def
      sampleTextOutputCallback_def findName_Cons callbackName_def showNat_digit digitChar_def)


section \<open>Classification of the response\<close>

text \<open>
  C1. \<open>success\<close> holds iff \<open>tokenId\<close> is present and truthy, whatever the other fields
  are; \<open>failure\<close> holds iff \<open>authId\<close> is absent and \<open>code\<close> is the number 401; when
  neither holds, \<open>handleCallbackResponse\<close> renders the descriptors (continuation). With an
  \<open>authId\<close> present the response is never a failure, also when \<open>code\<close> is 401. The last
  two conjuncts tie the predicates to the handlers: an installed success handler is invoked
  iff \<open>tokenId\<close> is truthy, and, \<open>success\<close> being tested first, an installed failure
  handler is invoked on a response that is not a success iff \<open>authId\<close> is absent and
  \<open>code\<close> is 401.
\<close>

theorem response_classification:
  "(success l \<longleftrightarrow>
      tokenId (currentCallbacks l) \<noteq> JUndefined \<and> truthy (tokenId (currentCallbacks l)))
   \<and> (failure l \<longleftrightarrow>
      authId (currentCallbacks l) = JUndefined \<and> code (currentCallbacks l) = JNum 401)
   \<and> (\<not> success l \<and> \<not> failure l \<longrightarrow>
      handleCallbackResponse l = Rendering (renderAllCallbacks l))
   \<and> (authId (currentCallbacks l) \<noteq> JUndefined \<longrightarrow>
      \<not> failure l \<and> handleCallbackResponse l \<noteq> FailureHandlerInvoked)
   \<and> (successHandler l \<longrightarrow>
      (handleCallbackResponse l = SuccessHandlerInvoked \<longleftrightarrow> truthy (tokenId (currentCallbacks l))))
   \<and> (failureHandler l \<and> \<not> success l \<longrightarrow>
      (handleCallbackResponse l = FailureHandlerInvoked \<longleftrightarrow>
         authId (currentCallbacks l) = JUndefined \<and> code (currentCallbacks l) = JNum 401))"
proof -
  have "truthy v \<Longrightarrow> v \<noteq> JUndefined" for v by (cases v) auto
  then show ?thesis
    by (auto simp: success_def failure_def handleCallbackResponse_def)
qed

text \<open>An exchange with an \<open>authId\<close> and the code 401 is rendered, not failed.\<close>

theorem response_classification_witness:
  "\<not> success (sampleLogin ((sampleExchange [])\<lparr>code := JNum 401\<rparr>))
   \<and> \<not> failure (sampleLogin ((sampleExchange [])\<lparr>code := JNum 401\<rparr>))
   \<and> authId (currentCallbacks (sampleLogin ((sampleExchange [])\<lparr>code := JNum 401\<rparr>))) \<noteq> JUndefined
   \<and> successHandler (sampleLogin ((sampleExchange [])\<lparr>code := JNum 401\<rparr>))
   \<and> failureHandler (sampleLogin ((sampleExchange [])\<lparr>code := JNum 401\<rparr>))
   \<and> handleCallbackResponse (sampleLogin ((sampleExchange [])\<lparr>code := JNum 401\<rparr>))
       = Rendering (renderAllCallbacks (sampleLogin ((sampleExchange [])\<lparr>code := JNum 401\<rparr>)))
   \<and> handleCallbackResponse (sampleLogin ((sampleExchange [])\<lparr>code := JNum 401\<rparr>))
       \<noteq> FailureHandlerInvoked
   \<and> handleCallbackResponse (sampleLogin ((sampleExchange [])\<lparr>code := JNum 401\<rparr>))
       \<noteq> SuccessHandlerInvoked"
  using response_classification [of "sampleLogin ((sampleExchange [])\<lparr>code := JNum 401\<rparr>)"]
  by (simp add: sampleLogin_def sampleExchange_def success_def failure_def)

section \<open>One round trip\<close>

text \<open>
  C2. A response is received and stored (\<open>receiveResponse\<close>, which also renders it), then
  the form is submitted (\<open>handleLoginSubmit\<close>) and the request goes out. The descriptor
  sequence in the body of that request has the count and the order of the sequence received:
  descriptor by descriptor it is the received one up to \<open>input[0].value\<close>, so that types and
  outputs are unchanged and nothing is added, removed or moved. In particular the login
  button that \<open>renderAllCallbacks\<close> synthesizes for rendering is not in the submitted
  sequence.
\<close>

theorem submitted_sequence_echoes_received:
  assumes "handleLoginSubmit (fst (receiveResponse l jsonResp)) entries = (l', Inr req)"
    and "callbacks jsonResp = Some cbs"
  shows "withoutInputValues (r_body req) = withoutInputValues jsonResp
     \<and> (\<exists>cbs'. callbacks (r_body req) = Some cbs'
          \<and> length cbs' = length cbs
          \<and> map withoutInput0Value cbs' = map withoutInput0Value cbs
          \<and> map ctype cbs' = map ctype cbs
          \<and> map coutput cbs' = map coutput cbs
          \<and> (needsLoginButton cbs \<longrightarrow> loginCallback cbs \<notin> set cbs'))"
proof -
  have body: "r_body req = currentCallbacks l'"
    using assms(1) by (rule handleLoginSubmit_body)
  have erased: "withoutInputValues (r_body req) = withoutInputValues jsonResp"
    using handleLoginSubmit_erased[of "fst (receiveResponse l jsonResp)" entries] assms(1) body
    by (simp add: receiveResponse_stored)
  then have "map_option (map withoutInput0Value) (callbacks (r_body req))
             = Some (map withoutInput0Value cbs)"
    using assms(2) by (auto simp: withoutInputValues_def dest: arg_cong[where f = callbacks])
  then obtain cbs' where cbs': "callbacks (r_body req) = Some cbs'"
    and same: "map withoutInput0Value cbs' = map withoutInput0Value cbs"
    by auto
  have len: "length cbs' = length cbs"
    using same by (rule map_eq_imp_length_eq)
  have types: "map ctype cbs' = map ctype cbs"
    using same by (rule erased_same_types)
  have outs: "map coutput cbs' = map coutput cbs"
    using same by (rule erased_same_outputs)
  have "loginCallback cbs \<notin> set cbs'" if needs: "needsLoginButton cbs"
  proof
    assume "loginCallback cbs \<in> set cbs'"
    then have "ctype (loginCallback cbs) \<in> set (map ctype cbs')" by simp
    with types have "ctype (loginCallback cbs) \<in> ctype ` set cbs" by simp
    then obtain cb where "cb \<in> set cbs" "ctype cb = ''ConfirmationCallback''"
      by (auto simp: loginCallback_def)
    with needs show False by (simp add: needsLoginButton_iff)
  qed
  with erased cbs' len same types outs show ?thesis by simp
qed

text \<open>A name and a password descriptor, both filled in by the form.\<close>

theorem submitted_sequence_echoes_received_witness:
  "\<exists>l' req cbs'.
     handleLoginSubmit
       (fst (receiveResponse (sampleLogin emptyExchange)
              (sampleExchange [sampleNameCallback [], samplePasswordCallback []])))
       [(''callback_0'', ''alice''), (''callback_1'', ''secret'')] = (l', Inr req)
     \<and> callbacks (sampleExchange [sampleNameCallback [], samplePasswordCallback []])
         = Some [sampleNameCallback [], samplePasswordCallback []]
     \<and> callbacks (r_body req) = Some cbs'
     \<and> length cbs' = 2
     \<and> map ctype cbs' = [''NameCallback'', ''PasswordCallback'']
     \<and> needsLoginButton [sampleNameCallback [], samplePasswordCallback []]
     \<and> loginCallback [sampleNameCallback [], samplePasswordCallback []] \<notin> set cbs'"
proof -
  have "\<exists>l' req. handleLoginSubmit
       (fst (receiveResponse (sampleLogin emptyExchange)
              (sampleExchange [sampleNameCallback [], samplePasswordCallback []])))
       [(''callback_0'', ''alice''), (''callback_1'', ''secret'')] = (l', Inr req)"
    by (simp add: handleLoginSubmit_def receiveResponse_def Let_def sampleLogin_def
        sampleExchange_def sampleNameCallback_def samplePasswordCallback_def applyEntry_def
        matchCallback_def isDigit_def parseInt_def digitValue_def)
  then obtain l' req where submit: "handleLoginSubmit
       (fst (receiveResponse (sampleLogin emptyExchange)
              (sampleExchange [sampleNameCallback [], samplePasswordCallback []])))
       [(''callback_0'', ''alice''), (''callback_1'', ''secret'')] = (l', Inr req)"
    by blast
  have received: "callbacks (sampleExchange [sampleNameCallback [], samplePasswordCallback []])
         = Some [sampleNameCallback [], samplePasswordCallback []]"
    by (simp add: sampleExchange_def)
  have needs: "needsLoginButton [sampleNameCallback [], samplePasswordCallback []]"
    by (simp add: needsLoginButton_def sampleNameCallback_def samplePasswordCallback_def)
  from submitted_sequence_echoes_received [OF submit received] needs submit received
  show ?thesis
    by (auto simp: sampleNameCallback_def samplePasswordCallback_def)
qed

section \<open>From the form fields to the descriptors\<close>

text \<open>
  C3. When every field named \<open>callback_N\<close> addresses a descriptor that exists and has an
  \<open>input[0]\<close>, \<open>handleLoginSubmit\<close> runs to the end and submits the exchange it has
  updated. Each such field has its value written into \<open>input[0].value\<close> of descriptor
  \<open>N\<close>: the descriptor holds the value once the loop has processed the field, and still
  holds it in the submitted body unless a later field has the same \<open>N\<close>. Fields whose name
  does not match \<open>callback_<N>\<close> are ignored: dropping them gives the same state and the same
  request, and a form without matching fields leaves the exchange unchanged. The name
  \<open>callback_N\<close> that the renderer gives the field of descriptor \<open>N\<close> is read back as \<open>N\<close>.
\<close>

theorem handleLoginSubmit_writes_fields:
  assumes "\<forall>e\<in>set entries. \<forall>i. matchCallback (fst e) = Some i \<longrightarrow> writable (currentCallbacks l) i"
  shows "\<exists>l' req. handleLoginSubmit l entries = (l', Inr req)
      \<and> r_body req = currentCallbacks l'
      \<and> (\<forall>j i. j < length entries \<and> matchCallback (fst (entries ! j)) = Some i \<longrightarrow>
            descriptorInputValue
              (fst (applyEntries (currentCallbacks l) (take (Suc j) entries))) i
              = Inr (JStr (snd (entries ! j)))
            \<and> ((\<forall>k. j < k \<and> k < length entries \<longrightarrow> matchCallback (fst (entries ! k)) \<noteq> Some i)
                 \<longrightarrow> descriptorInputValue (r_body req) i = Inr (JStr (snd (entries ! j)))))
      \<and> handleLoginSubmit l (filter (\<lambda>e. matchCallback (fst e) \<noteq> None) entries) = (l', Inr req)
      \<and> ((\<forall>e\<in>set entries. matchCallback (fst e) = None) \<longrightarrow> r_body req = currentCallbacks l)
      \<and> (\<forall>i. matchCallback (callbackName i) = Some i)"
proof -
  obtain ex' where run: "applyEntries (currentCallbacks l) entries = (ex', None)"
    using applyEntries_total[OF assms] by (cases "applyEntries (currentCallbacks l) entries") auto
  let ?l' = "l\<lparr>currentCallbacks := ex'\<rparr>"
  let ?req = "submitCallbacks ?l'"
  have completes: "handleLoginSubmit l entries = (?l', Inr ?req)"
    using run by (rule handleLoginSubmit_completes)
  have body: "r_body ?req = ex'" by (simp add: submitCallbacks_def)
  have each: "descriptorInputValue
                (fst (applyEntries (currentCallbacks l) (take (Suc j) entries))) i
              = Inr (JStr (snd (entries ! j)))"
    if j: "j < length entries" and m: "matchCallback (fst (entries ! j)) = Some i" for j i
  proof -
    obtain ex1 where pre: "applyEntries (currentCallbacks l) (take (Suc j) entries) = (ex1, None)"
      using applyEntries_prefix[OF run, of "Suc j"]
      by (cases "applyEntries (currentCallbacks l) (take (Suc j) entries)") auto
    have "descriptorInputValue ex1 i = Inr (JStr (snd (take (Suc j) entries ! j)))"
    proof (rule applyEntries_last_write[OF pre])
      show "j < length (take (Suc j) entries)" using j by simp
      show "matchCallback (fst (take (Suc j) entries ! j)) = Some i" using m by simp
      show "\<forall>k. j < k \<and> k < length (take (Suc j) entries) \<longrightarrow>
                matchCallback (fst (take (Suc j) entries ! k)) \<noteq> Some i"
        by auto
    qed
    with pre show ?thesis by simp
  qed
  have final: "descriptorInputValue (r_body ?req) i = Inr (JStr (snd (entries ! j)))"
    if "j < length entries" and "matchCallback (fst (entries ! j)) = Some i"
      and "\<forall>k. j < k \<and> k < length entries \<longrightarrow> matchCallback (fst (entries ! k)) \<noteq> Some i" for j i
    using applyEntries_last_write[OF run that] body by simp
  have filtered: "handleLoginSubmit l (filter (\<lambda>e. matchCallback (fst e) \<noteq> None) entries)
                    = (?l', Inr ?req)"
  proof (rule handleLoginSubmit_completes)
    show "applyEntries (currentCallbacks l) (filter (\<lambda>e. matchCallback (fst e) \<noteq> None) entries)
            = (ex', None)"
      unfolding applyEntries_filter by (rule run)
  qed
  have ignored: "r_body ?req = currentCallbacks l" if "\<forall>e\<in>set entries. matchCallback (fst e) = None"
    using applyEntries_nomatch[OF that, of "currentCallbacks l"] run body by simp
  have sent: "r_body ?req = currentCallbacks ?l'" by (simp add: submitCallbacks_def)
  from completes sent each final filtered ignored matchCallback_callbackName show ?thesis
    by blast
qed

text \<open>
  The field \<open>callback_2\<close> with the value \<open>alice\<close> makes the input value of the third
  descriptor \<open>alice\<close>; the field \<open>remember\<close> is ignored.
\<close>

theorem handleLoginSubmit_writes_fields_witness:
  "matchCallback ''callback_2'' = Some 2
   \<and> matchCallback ''remember'' = None
   \<and> writable (currentCallbacks (sampleLogin (sampleExchange
          [sampleNameCallback [], samplePasswordCallback [], sampleNameCallback []]))) 2
   \<and> (\<exists>l' req.
        handleLoginSubmit (sampleLogin (sampleExchange
          [sampleNameCallback [], samplePasswordCallback [], sampleNameCallback []]))
          [(''callback_2'', ''alice''), (''remember'', ''on'')] = (l', Inr req)
        \<and> descriptorInputValue (r_body req) 2 = Inr (JStr ''alice'')
        \<and> handleLoginSubmit (sampleLogin (sampleExchange
          [sampleNameCallback [], samplePasswordCallback [], sampleNameCallback []]))
          [(''callback_2'', ''alice'')] = (l', Inr req))"
proof -
  let ?l = "sampleLogin (sampleExchange
          [sampleNameCallback [], samplePasswordCallback [], sampleNameCallback []])"
  let ?entries = "[(''callback_2'', ''alice''), (''remember'', ''on'')]"
  have m2: "matchCallback ''callback_2'' = Some 2"
    by (simp add: matchCallback_def isDigit_def parseInt_def digitValue_def)
  have mr: "matchCallback ''remember'' = None"
    by (simp add: matchCallback_def)
  have hyp: "\<forall>e\<in>set ?entries. \<forall>i. matchCallback (fst e) = Some i \<longrightarrow> writable (currentCallbacks ?l) i"
    by (auto simp: m2 mr writable_def sampleLogin_def sampleExchange_def sampleNameCallback_def)
  from handleLoginSubmit_writes_fields [OF hyp] obtain l' req where
    submit: "handleLoginSubmit ?l ?entries = (l', Inr req)"
    and written: "\<forall>j i. j < length ?entries \<and> matchCallback (fst (?entries ! j)) = Some i \<longrightarrow>
            descriptorInputValue
              (fst (applyEntries (currentCallbacks ?l) (take (Suc j) ?entries))) i
              = Inr (JStr (snd (?entries ! j)))
            \<and> ((\<forall>k. j < k \<and> k < length ?entries \<longrightarrow> matchCallback (fst (?entries ! k)) \<noteq> Some i)
                 \<longrightarrow> descriptorInputValue (r_body req) i = Inr (JStr (snd (?entries ! j))))"
    and filtered: "handleLoginSubmit ?l (filter (\<lambda>e. matchCallback (fst e) \<noteq> None) ?entries) = (l', Inr req)"
    by blast
  have later: "\<forall>k. 0 < k \<and> k < length ?entries \<longrightarrow> matchCallback (fst (?entries ! k)) \<noteq> Some 2"
    by (auto simp: mr less_Suc_eq)
  from written[rule_format, of 0 2] later m2
  have "descriptorInputValue (r_body req) 2 = Inr (JStr ''alice'')" by simp
  moreover have "writable (currentCallbacks ?l) 2"
    by (simp add: writable_def sampleLogin_def sampleExchange_def sampleNameCallback_def)
  ultimately show ?thesis using submit filtered by (simp add: m2 mr)
qed

section \<open>The synthesized login button\<close>



section \<open>TextOutputCallback\<close>

text \<open>
  C5. A TextOutputCallback whose \<open>messageType\<close> output is the string \<open>4\<close> is rendered by
  \<open>renderTextOutputScript\<close> as a \<open>script\<close> element whose content is the \<open>message\<close>
  output itself, unescaped. With any other \<open>messageType\<close> it is rendered by
  \<open>renderTextOutputMessage\<close> as a \<open>div\<close> that holds the message, with the class
  \<open>messageTypeMap[messageType]\<close>, where \<open>0\<close> is mapped to \<open>INFORMATION\<close>, \<open>1\<close> to
  \<open>WARNING\<close> and \<open>2\<close> to \<open>ERROR\<close>. The second hypothesis says that computing the
  prompt, which \<open>renderCallback\<close> does for every type, has not raised a fault.
\<close>

theorem text_output_rendering:
  assumes "ctype cb = ''TextOutputCallback''" and "promptOf (coutput cb) = Inr p"
  shows \<open>(dotValue (findName (coutput cb) ''messageType'') = JStr ''4'' \<longrightarrow>
            dispatchCallback cb i
              = ([], Inr (Call (RenderTextOutputScript i (dotValue (findName (coutput cb) ''message'')))))
            \<and> renderCallback cb i
              = ([], Inr (One (ScriptElement (dotValue (findName (coutput cb) ''message''))))))
     \<and> (dotValue (findName (coutput cb) ''messageType'') \<noteq> JStr ''4'' \<longrightarrow>
            dispatchCallback cb i
              = ([], Inr (Call (RenderTextOutputMessage i (dotValue (findName (coutput cb) ''message''))
                                  (messageTypeMap (dotValue (findName (coutput cb) ''messageType''))))))
            \<and> renderCallback cb i
              = ([], Inr (One (FirstElementChild
                   (''<div id="'' @ callbackName i @ ''" class="''
                      @ toString (messageTypeMap (dotValue (findName (coutput cb) ''messageType'')))
                      @ ''">'' @ toString (dotValue (findName (coutput cb) ''message''))
                      @ ''</div>'')))))
     \<and> messageTypeMap (JStr ''0'') = JStr ''INFORMATION''
     \<and> messageTypeMap (JStr ''1'') = JStr ''WARNING''
     \<and> messageTypeMap (JStr ''2'') = JStr ''ERROR''\<close>
  using dispatch_TextOutput[OF assms, of i]
  by (simp add: renderCallback_def renderTextOutputScript_def renderTextOutputMessage_def
      messageTypeMap_def)

text \<open>A script and a warning.\<close>

theorem text_output_rendering_witness:
  \<open>ctype (sampleTextOutputCallback (JStr ''4'') ''alert(1 < 2)'') = ''TextOutputCallback''
   \<and> promptOf (coutput (sampleTextOutputCallback (JStr ''4'') ''alert(1 < 2)'')) = Inr []
   \<and> dotValue (findName (coutput (sampleTextOutputCallback (JStr ''4'') ''alert(1 < 2)'')) ''messageType'')
       = JStr ''4''
   \<and> renderCallback (sampleTextOutputCallback (JStr ''4'') ''alert(1 < 2)'') 0
       = ([], Inr (One (ScriptElement (JStr ''alert(1 < 2)''))))
   \<and> ctype (sampleTextOutputCallback (JStr ''1'') ''<b>Careful</b>'') = ''TextOutputCallback''
   \<and> promptOf (coutput (sampleTextOutputCallback (JStr ''1'') ''<b>Careful</b>'')) = Inr []
   \<and> dotValue (findName (coutput (sampleTextOutputCallback (JStr ''1'') ''<b>Careful</b>'')) ''messageType'')
       \<noteq> JStr ''4''
   \<and> renderCallback (sampleTextOutputCallback (JStr ''1'') ''<b>Careful</b>'') 0
       = ([], Inr (One (FirstElementChild
            ''<div id="callback_0" class="WARNING"><b>Careful</b></div>'')))\<close>
proof -
  have t4: "ctype (sampleTextOutputCallback (JStr ''4'') ''alert(1 < 2)'') = ''TextOutputCallback''"
    by (simp add: sampleTextOutputCallback_def)
  have p4: "promptOf (coutput (sampleTextOutputCallback (JStr ''4'') ''alert(1 < 2)'')) = Inr []"
    by (simp add: sampleTextOutputCallback_def promptOf_def findName_Cons findName_Nil)
  have t1: "ctype (sampleTextOutputCallback (JStr ''1'') ''<b>Careful</b>'') = ''TextOutputCallback''"
    by (simp add: sampleTextOutputCallback_def)
  have p1: \<open>promptOf (coutput (sampleTextOutputCallback (JStr ''1'') ''<b>Careful</b>'')) = Inr []\<close>
    by (simp add: sampleTextOutputCallback_def promptOf_def findName_Cons findName_Nil)
  from text_output_rendering [OF t4 p4, of 0] text_output_rendering [OF t1 p1, of 0] t4 p4 t1 p1
  show ?thesis
    by (simp add: sampleTextOutputCallback_def findName_Cons findName_Nil callbackName_def
        showNat_digit digitChar_def)
qed

section \<open>ConfirmationCallback\<close>

text \<open>
  C6. For a ConfirmationCallback whose \<open>options\<close> output is an array,
  \<open>renderConfirmationCallbackOption\<close> is called once per option, in order, and each call
  yields one input of type \<open>submit\<close>. The flag \<open>isDefault\<close> that marks the default option
  is true for the only option when there is exactly one, whatever \<open>defaultOption\<close> says,
  and otherwise true exactly for the option whose index is the number that the
  \<open>defaultOption\<close> output holds.
\<close>

theorem confirmation_options:
  assumes "ctype cb = ''ConfirmationCallback''" and "promptOf (coutput cb) = Inr p"
    and "dotValue (findName (coutput cb) ''options'') = JArr xs"
  shows \<open>dispatchCallback cb i =
     ([], Inr (CallAll (map (\<lambda>k. RenderConfirmationCallbackOption (xs ! k) i k
                 (if length xs = 1 then True
                  else dotValue (findName (coutput cb) ''defaultOption'') = JNum (int k)))
               [0..<length xs])))
     \<and> renderCallback cb i =
     ([], Inr (Many (map (\<lambda>k. FirstElementChild
                 (''<input name="'' @ callbackName i @ ''" type="submit" index="'' @ showNat k
                    @ ''" value="'' @ toString (xs ! k) @ ''">''))
               [0..<length xs])))\<close>
proof -
  note d = dispatch_Confirmation[OF assms, of i]
  have \<open>invokeAll (map (\<lambda>k. RenderConfirmationCallbackOption (xs ! k) i k
                 (if length xs = 1 then True
                  else dotValue (findName (coutput cb) ''defaultOption'') = JNum (int k)))
               [0..<length xs])
        = Inr (map (\<lambda>k. FirstElementChild
                 (''<input name="'' @ callbackName i @ ''" type="submit" index="'' @ showNat k
                    @ ''" value="'' @ toString (xs ! k) @ ''">''))
               [0..<length xs])\<close>
    by (rule invokeAll_map) (simp add: renderConfirmationCallbackOption_def)
  with d show ?thesis by (simp add: renderCallback_def)
qed

text \<open>
  Two options with \<open>defaultOption\<close> 1: the second is the default. One option with
  \<open>defaultOption\<close> 1: the option, of index 0, is the default.
\<close>

theorem confirmation_options_witness:
  \<open>ctype sampleConfirmationCallback = ''ConfirmationCallback''
   \<and> promptOf (coutput sampleConfirmationCallback) = Inr []
   \<and> dotValue (findName (coutput sampleConfirmationCallback) ''options'') = JArr [JStr ''Yes'', JStr ''No'']
   \<and> dispatchCallback sampleConfirmationCallback 3
       = ([], Inr (CallAll [RenderConfirmationCallbackOption (JStr ''Yes'') 3 0 False,
                            RenderConfirmationCallbackOption (JStr ''No'') 3 1 True]))
   \<and> renderCallback sampleConfirmationCallback 3
       = ([], Inr (Many [FirstElementChild ''<input name="callback_3" type="submit" index="0" value="Yes">'',
                         FirstElementChild ''<input name="callback_3" type="submit" index="1" value="No">'']))
   \<and> ctype (sampleConfirmationCallback\<lparr>coutput :=
          [\<lparr>nv_name = JStr ''options'', nv_value = JArr [JStr ''Continue'']\<rparr>,
           \<lparr>nv_name = JStr ''defaultOption'', nv_value = JNum 1\<rparr>]\<rparr>) = ''ConfirmationCallback''
   \<and> dispatchCallback (sampleConfirmationCallback\<lparr>coutput :=
          [\<lparr>nv_name = JStr ''options'', nv_value = JArr [JStr ''Continue'']\<rparr>,
           \<lparr>nv_name = JStr ''defaultOption'', nv_value = JNum 1\<rparr>]\<rparr>) 3
       = ([], Inr (CallAll [RenderConfirmationCallbackOption (JStr ''Continue'') 3 0 True]))\<close>
proof -
  let ?single = "sampleConfirmationCallback\<lparr>coutput :=
          [\<lparr>nv_name = JStr ''options'', nv_value = JArr [JStr ''Continue'']\<rparr>,
           \<lparr>nv_name = JStr ''defaultOption'', nv_value = JNum 1\<rparr>]\<rparr>"
  have t: "ctype sampleConfirmationCallback = ''ConfirmationCallback''"
    by (simp add: sampleConfirmationCallback_def)
  have p: "promptOf (coutput sampleConfirmationCallback) = Inr []"
    by (simp add: sampleConfirmationCallback_def promptOf_def findName_Cons)
  have opts: "dotValue (findName (coutput sampleConfirmationCallback) ''options'')
              = JArr [JStr ''Yes'', JStr ''No'']"
    by (simp add: sampleConfirmationCallback_def findName_Cons)
  have dflt: "dotValue (findName (coutput sampleConfirmationCallback) ''defaultOption'') = JNum 1"
    by (simp add: sampleConfirmationCallback_def findName_Cons)
  have t': "ctype ?single = ''ConfirmationCallback''"
    by (simp add: sampleConfirmationCallback_def)
  have p': "promptOf (coutput ?single) = Inr []"
    by (simp add: promptOf_def findName_Cons findName_Nil)
  have opts': "dotValue (findName (coutput ?single) ''options'') = JArr [JStr ''Continue'']"
    by (simp add: findName_Cons)
  have upt2: "[0..<2] = [0, Suc 0]" by (simp add: upt_rec)
  from confirmation_options [OF t p opts, of 3] confirmation_options [OF t' p' opts', of 3]
    t p opts t'
  show ?thesis
    by (simp add: dflt upt2 callbackName_def showNat_digit digitChar_def)
qed

section \<open>ChoiceCallback\<close>

text \<open>
  C7. A ChoiceCallback as the server sends it, with the choices \<open>red\<close> and \<open>green\<close> and the
  current input value 1 in \<open>input[0].value\<close>. The select list has one entry per choice, but
  no entry is active: \<open>renderCallback\<close> compares the index of each entry with
  \<open>callback.input.value\<close>, which is \<open>undefined\<close> on the input sequence, where the other
  methods read \<open>callback.input[0].value\<close>. The entry \<open>green\<close> of index 1 is not selected.
\<close>

theorem choice_not_preselected:
  \<open>input0DotValue (cinput (sampleChoiceCallback (JNum 1))) = Inr (JNum 1)
   \<and> dispatchCallback (sampleChoiceCallback (JNum 1)) 0
       = ([], Inr (Call (RenderChoiceCallback (sampleChoiceCallback (JNum 1)) 0 ''Colour''
            [\<lparr>active = False, key = 0, cvalue = JStr ''red''\<rparr>,
             \<lparr>active = False, key = 1, cvalue = JStr ''green''\<rparr>])))
   \<and> renderCallback (sampleChoiceCallback (JNum 1)) 0
       = ([], Inr (One (FirstElementChild
            (''<div><label for="callback_0" id="label_callback_0">Colour</label>'' @ templateBreak
             @ ''<select name="callback_0" id="callback_0">'' @ templateBreak
             @ ''<option value="0" >red</option>,<option value="1" >green</option>'' @ templateBreak
             @ ''</select></div>''))))\<close>
proof -
  have d: "dispatchCallback (sampleChoiceCallback (JNum 1)) 0
       = ([], Inr (Call (RenderChoiceCallback (sampleChoiceCallback (JNum 1)) 0 ''Colour''
            [\<lparr>active = False, key = 0, cvalue = JStr ''red''\<rparr>,
             \<lparr>active = False, key = 1, cvalue = JStr ''green''\<rparr>])))"
    by (simp add: dispatchCallback_def promptOf_def switchCallback_def choiceCase_def
        sampleChoiceCallback_def findName_Cons stripColon_def)
  then show ?thesis
    by (simp add: renderCallback_def renderChoiceCallback_def renderOption_def callbackName_def
        showNat_digit digitChar_def)
       (simp add: sampleChoiceCallback_def)
qed

section \<open>PollingWaitCallback\<close>

text \<open>
  C8. A PollingWaitCallback with the wait time \<open>8000\<close> and the message
  \<open>Waiting for response...\<close>. The timer is set with the wait time, and its callback only
  sets \<open>pollingInProgress\<close>. The message is handed to \<open>renderPollingWaitCallback\<close>, but
  the method of the current module does not render it: it builds the hidden input of
  \<open>renderHiddenValueCallback\<close> from \<open>callback.input.value\<close>, which is a fault for a
  descriptor without an \<open>input\<close> and a hidden input without the message otherwise. The method of
  the earlier variant renders the message in an \<open>h4\<close> element.
\<close>

theorem polling_message_not_rendered:
  \<open>renderCallback (samplePollingWaitCallback NoInput) 0
       = ([SetTimeout (JStr ''8000'')], Inl TypeError)
   \<and> dispatchCallback (samplePollingWaitCallback (InputList [])) 0
       = ([SetTimeout (JStr ''8000'')],
          Inr (Call (RenderPollingWaitCallback (samplePollingWaitCallback (InputList [])) 0
                 (JStr ''Waiting for response...''))))
   \<and> renderCallback (samplePollingWaitCallback (InputList [])) 0
       = ([SetTimeout (JStr ''8000'')],
          Inr (One (FirstElementChild
            ''<input type="hidden" id="undefined" aria-hidden="true" name="callback_0" value="" />'')))
   \<and> renderPollingWaitCallback_index_js (samplePollingWaitCallback NoInput) 0
         (JStr ''Waiting for response...'')
       = ''<h4>Waiting for response...</h4>''
   \<and> pollingInProgress (pollingTimerFired (sampleLogin emptyExchange))
   \<and> currentCallbacks (pollingTimerFired (sampleLogin emptyExchange)) = emptyExchange\<close>
  by (simp add: pollingTimerFired_def sampleLogin_def renderCallback_def dispatchCallback_def
      promptOf_def switchCallback_def
      samplePollingWaitCallback_def findName_Cons findName_Nil renderPollingWaitCallback_def
      renderPollingWaitCallback_index_js_def callbackName_def showNat_digit digitChar_def)

section \<open>HiddenValueCallback\<close>




section \<open>Descriptors that lack an expected output\<close>

text \<open>
  C10, as stated, fails: with an empty \<open>output\<close> sequence, a TextOutputCallback is rendered
  as a message block, a RedirectCallback submits its form, and a PollingWaitCallback sets
  its timer and is rendered. None of them raises a fault.
\<close>

theorem missing_output_no_fault:
  \<open>renderCallback \<lparr>ctype = ''TextOutputCallback'', cinput = NoInput, coutput = []\<rparr> 0
       = ([], Inr (One (FirstElementChild ''<div id="callback_0" class="undefined">undefined</div>'')))
   \<and> renderCallback \<lparr>ctype = ''RedirectCallback'', cinput = NoInput, coutput = []\<rparr> 0
       = ([SubmitRedirectForm JUndefined JUndefined []], Inr NoValue)
   \<and> renderCallback \<lparr>ctype = ''PollingWaitCallback'', cinput = InputList [], coutput = []\<rparr> 0
       = ([SetTimeout JUndefined],
          Inr (One (FirstElementChild
            ''<input type="hidden" id="undefined" aria-hidden="true" name="callback_0" value="" />'')))\<close>
  by (simp add: renderCallback_def dispatchCallback_def promptOf_def switchCallback_def
      redirectCase_def findName_Nil messageTypeMap_def renderTextOutputMessage_def
      renderPollingWaitCallback_def callbackName_def showNat_digit digitChar_def)

text \<open>
  C10, amended. The value of an entry that \<open>findName\<close> does not find is read as
  \<open>undefined\<close>, without a fault. So, whatever entries its \<open>output\<close> has or lacks, a
  TextOutputCallback is rendered as a script or as a message block; a RedirectCallback
  without \<open>redirectData\<close> submits a form with the action and the method its outputs give;
  a PollingWaitCallback sets the timer with the \<open>waitTime\<close> its outputs give and calls
  \<open>renderPollingWaitCallback\<close> with the \<open>message\<close> they give.
\<close>

theorem missing_output_read_as_undefined:
  assumes "promptOf (coutput cb) = Inr p"
  shows \<open>(findName (coutput cb) n = None \<longrightarrow> dotValue (findName (coutput cb) n) = JUndefined)
     \<and> (ctype cb = ''TextOutputCallback'' \<longrightarrow>
          renderCallback cb i =
            ([], Inr (One
               (if dotValue (findName (coutput cb) ''messageType'') = JStr ''4''
                then ScriptElement (dotValue (findName (coutput cb) ''message''))
                else FirstElementChild
                  (''<div id="'' @ callbackName i @ ''" class="''
                     @ toString (messageTypeMap (dotValue (findName (coutput cb) ''messageType'')))
                     @ ''">'' @ toString (dotValue (findName (coutput cb) ''message''))
                     @ ''</div>'')))))
     \<and> (ctype cb = ''RedirectCallback''
          \<and> \<not> truthy (dotValue (findName (coutput cb) ''redirectData'')) \<longrightarrow>
          renderCallback cb i =
            ([SubmitRedirectForm (dotValue (findName (coutput cb) ''redirectUrl''))
                (dotValue (findName (coutput cb) ''redirectMethod'')) []],
             Inr NoValue))
     \<and> (ctype cb = ''PollingWaitCallback'' \<longrightarrow>
          dispatchCallback cb i =
            ([SetTimeout (dotValue (findName (coutput cb) ''waitTime''))],
             Inr (Call (RenderPollingWaitCallback cb i
                          (dotValue (findName (coutput cb) ''message''))))))\<close>
proof -
  have redirect: "ctype cb = ''RedirectCallback''
          \<and> \<not> truthy (dotValue (findName (coutput cb) ''redirectData'')) \<longrightarrow>
          renderCallback cb i =
            ([SubmitRedirectForm (dotValue (findName (coutput cb) ''redirectUrl''))
                (dotValue (findName (coutput cb) ''redirectMethod'')) []],
             Inr NoValue)"
    using assms
    by (simp add: renderCallback_def dispatchCallback_def switchCallback_def redirectCase_def Let_def)
  have polling: "ctype cb = ''PollingWaitCallback'' \<longrightarrow>
          dispatchCallback cb i =
            ([SetTimeout (dotValue (findName (coutput cb) ''waitTime''))],
             Inr (Call (RenderPollingWaitCallback cb i
                          (dotValue (findName (coutput cb) ''message'')))))"
    using assms by (simp add: dispatchCallback_def switchCallback_def Let_def)
  have textual: \<open>ctype cb = ''TextOutputCallback'' \<longrightarrow>
          renderCallback cb i =
            ([], Inr (One
               (if dotValue (findName (coutput cb) ''messageType'') = JStr ''4''
                then ScriptElement (dotValue (findName (coutput cb) ''message''))
                else FirstElementChild
                  (''<div id="'' @ callbackName i @ ''" class="''
                     @ toString (messageTypeMap (dotValue (findName (coutput cb) ''messageType'')))
                     @ ''">'' @ toString (dotValue (findName (coutput cb) ''message''))
                     @ ''</div>''))))\<close>
    using dispatch_TextOutput[OF _ assms, of i]
    by (simp add: renderCallback_def renderTextOutputScript_def renderTextOutputMessage_def)
  from redirect polling textual show ?thesis by simp
qed

text \<open>The three types with an empty \<open>output\<close> sequence.\<close>

theorem missing_output_read_as_undefined_witness:
  \<open>promptOf (coutput \<lparr>ctype = ''TextOutputCallback'', cinput = NoInput, coutput = []\<rparr>) = Inr []
   \<and> findName (coutput \<lparr>ctype = ''TextOutputCallback'', cinput = NoInput, coutput = []\<rparr>) ''message''
       = None
   \<and> renderCallback \<lparr>ctype = ''TextOutputCallback'', cinput = NoInput, coutput = []\<rparr> 2
       = ([], Inr (One (FirstElementChild ''<div id="callback_2" class="undefined">undefined</div>'')))
   \<and> \<not> truthy (dotValue (findName
          (coutput \<lparr>ctype = ''RedirectCallback'', cinput = NoInput, coutput = []\<rparr>) ''redirectData''))
   \<and> renderCallback \<lparr>ctype = ''RedirectCallback'', cinput = NoInput, coutput = []\<rparr> 2
       = ([SubmitRedirectForm JUndefined JUndefined []], Inr NoValue)
   \<and> dispatchCallback \<lparr>ctype = ''PollingWaitCallback'', cinput = NoInput, coutput = []\<rparr> 2
       = ([SetTimeout JUndefined],
          Inr (Call (RenderPollingWaitCallback
                 \<lparr>ctype = ''PollingWaitCallback'', cinput = NoInput, coutput = []\<rparr> 2 JUndefined)))\<close>
proof -
  have p: "promptOf (coutput \<lparr>ctype = t, cinput = NoInput, coutput = []\<rparr>) = Inr []" for t
    by (simp add: promptOf_def findName_Nil)
  from missing_output_read_as_undefined
         [OF p, of "''TextOutputCallback''" "''message''" 2]
       missing_output_read_as_undefined
         [OF p, of "''RedirectCallback''" "''redirectUrl''" 2]
       missing_output_read_as_undefined
         [OF p, of "''PollingWaitCallback''" "''waitTime''" 2]
       p [of "''TextOutputCallback''"]
  show ?thesis
    by (simp add: findName_Nil messageTypeMap_def callbackName_def showNat_digit digitChar_def)
qed

end
